theory Spec2Isabelle
  imports Complex_Main "HOL-Library.Word"
begin

unbundle bit_operations_syntax

section \<open>fc-char: fonts that support a given glyph\<close>

text \<open>
  A shallow embedding of \<^verbatim>\<open>src/fc-char.c\<close>. The C globals \<^verbatim>\<open>args\<close> and
  \<^verbatim>\<open>global\<close> are records that every function takes and returns; standard output,
  standard error and the font query are recorded as a trace of events. What the C library,
  iconv, fontconfig, libuninameslist and the X server answer is not code of this program:
  those answers are parameters (the records \<open>env\<close> and \<open>xworld\<close>, and the list of
  results of successive \<^verbatim>\<open>getopt_long\<close> calls). Diagnostics printed only under
  \<^verbatim>\<open>--debug\<close> (the DBG macros) and the text drawing requests sent to the X server are
  left out of the trace; they change neither the control flow nor the globals.
  C \<^verbatim>\<open>int\<close> values are modelled as \<open>int\<close> (no claim depends on their overflow),
  \<^verbatim>\<open>unsigned int\<close>, \<^verbatim>\<open>uint32_t\<close> and \<^verbatim>\<open>size_t\<close> as words of 32, 32 and 64 bits.
\<close>

subsection \<open>C strings and the C library functions the program calls\<close>

definition NUL :: char where
  "NUL = CHR 0x00"

definition newline :: string where
  "newline = [CHR 0x0A]"

text \<open>Reading a C string out of a fixed buffer: the bytes before the first NUL. A buffer
  with no NUL has no string in it (reading on would leave the array).\<close>

definition cstring :: "string \<Rightarrow> string option" where
  "cstring buf = (if NUL \<in> set buf then Some (takeWhile (\<lambda>ch. ch \<noteq> NUL) buf) else None)"

text \<open>\<^verbatim>\<open>strncpy(dst, src, n)\<close>: exactly \<open>n\<close> bytes are written, the source padded with
  NULs when it is shorter and cut without a terminator when it is not.\<close>

definition strncpy :: "string \<Rightarrow> string \<Rightarrow> nat \<Rightarrow> string" where
  "strncpy dst src n = take n (src @ replicate n NUL) @ drop n dst"

text \<open>\<^verbatim>\<open>snprintf(dst, n, ...)\<close> with the formatted text \<open>s\<close>: at most \<open>n - 1\<close>
  characters and a terminating NUL.\<close>

definition snprintf :: "string \<Rightarrow> nat \<Rightarrow> string \<Rightarrow> string" where
  "snprintf dst n s =
     (if n = 0 then dst
      else let t = take (n - 1) s in t @ [NUL] @ drop (length t + 1) dst)"

text \<open>\<^verbatim>\<open>strstr(s, p) == s\<close>: the string starts with \<open>p\<close>.\<close>

definition starts_with :: "string \<Rightarrow> string \<Rightarrow> bool" where
  "starts_with s p = (take (length p) s = p)"

definition isspace_c :: "char \<Rightarrow> bool" where
  "isspace_c ch = (ch = CHR '' '' \<or> (9 \<le> (of_char ch :: nat) \<and> (of_char ch :: nat) \<le> 13))"

definition digit_value :: "char \<Rightarrow> nat option" where
  "digit_value ch =
     (let n = (of_char ch :: nat) in
      if 48 \<le> n \<and> n \<le> 57 then Some (n - 48)
      else if 97 \<le> n \<and> n \<le> 122 then Some (n - 87)
      else if 65 \<le> n \<and> n \<le> 90 then Some (n - 55)
      else None)"

fun accumulate_digits :: "nat \<Rightarrow> nat \<Rightarrow> string \<Rightarrow> nat" where
  "accumulate_digits base acc [] = acc"
| "accumulate_digits base acc (ch # cs) =
     (case digit_value ch of
        None \<Rightarrow> acc
      | Some d \<Rightarrow> if d < base then accumulate_digits base (base * acc + d) cs else acc)"

definition has_hex_prefix :: "string \<Rightarrow> bool" where
  "has_hex_prefix s =
     (case s of
        a # b # c # _ \<Rightarrow>
          a = CHR ''0'' \<and> (b = CHR ''x'' \<or> b = CHR ''X'') \<and>
          (case digit_value c of None \<Rightarrow> False | Some d \<Rightarrow> d < 16)
      | _ \<Rightarrow> False)"

text \<open>\<^verbatim>\<open>strtol(s, NULL, base)\<close> for base 10 or 16 with a 64-bit \<^verbatim>\<open>long\<close>: white space,
  an optional sign, for base 16 an optional \<^verbatim>\<open>0x\<close>, then digits up to the first character
  that is none; no digits give 0 and a value out of range gives \<^verbatim>\<open>LONG_MAX\<close> or
  \<^verbatim>\<open>LONG_MIN\<close>.\<close>

definition strtol :: "string \<Rightarrow> nat \<Rightarrow> int" where
  "strtol s base =
     (let s1 = dropWhile isspace_c s;
          neg = (s1 \<noteq> [] \<and> hd s1 = CHR ''-'');
          s2 = (if s1 \<noteq> [] \<and> (hd s1 = CHR ''-'' \<or> hd s1 = CHR ''+'') then tl s1 else s1);
          s3 = (if base = 16 \<and> has_hex_prefix s2 then drop 2 s2 else s2);
          m = int (accumulate_digits base 0 s3)
      in if neg then (if m > 2 ^ 63 then - (2 ^ 63) else - m)
         else (if m > 2 ^ 63 - 1 then 2 ^ 63 - 1 else m))"

text \<open>\<^verbatim>\<open>atoi\<close> is \<^verbatim>\<open>(int) strtol(s, NULL, 10)\<close>: the low 32 bits, read as signed.\<close>

definition atoi :: "string \<Rightarrow> int" where
  "atoi s = sint (word_of_int (strtol s 10) :: 32 word)"

text \<open>The conversions \<^verbatim>\<open>%04x\<close> and \<^verbatim>\<open>%08x\<close> of \<^verbatim>\<open>printf\<close>: lower-case hexadecimal,
  padded with zeros on the left up to the width.\<close>

definition hexdigit :: "nat \<Rightarrow> char" where
  "hexdigit d = ''0123456789abcdef'' ! d"

fun hex_of_nat :: "nat \<Rightarrow> string" where
  "hex_of_nat n = (if n < 16 then [hexdigit n] else hex_of_nat (n div 16) @ [hexdigit (n mod 16)])"

declare hex_of_nat.simps [simp del]

definition printf_0x :: "nat \<Rightarrow> nat \<Rightarrow> string" where
  "printf_0x w n = (let ds = hex_of_nat n in replicate (w - length ds) CHR ''0'' @ ds)"

subsection \<open>Command line flags\<close>

record args =
  display :: int
  maxfonts :: int
  debug :: int
  showname :: int
  showannot :: int
  printfonts :: int
  fixed :: int

definition args_init :: args where
  "args_init = \<lparr>display = 1, maxfonts = 0, debug = 0, showname = 0, showannot = 0,
                 printfonts = 0, fixed = 0\<rparr>"

datatype event =
    Stdout string
  | Stderr string
  | FcFontList bool "32 word"
  | XDrawRectangle int int int int

text \<open>One call of \<^verbatim>\<open>getopt_long\<close>: the value it returns, and \<^verbatim>\<open>optarg\<close> and
  \<^verbatim>\<open>optind\<close> as it leaves them. For the option string \<^verbatim>\<open>"Nnhm:dapc::"\<close> and the table
  \<^verbatim>\<open>long_options\<close> it returns the option's letter (\<^verbatim>\<open>--print\<close> and \<^verbatim>\<open>-p\<close> give
  \<^verbatim>\<open>'p'\<close>, \<^verbatim>\<open>--help\<close> and \<^verbatim>\<open>-h\<close> give \<^verbatim>\<open>'h'\<close>, \<^verbatim>\<open>--fixed\<close> gives \<^verbatim>\<open>'f'\<close>),
  \<^verbatim>\<open>'?'\<close> for an argument it does not know and -1 when no option is left.\<close>

record getopt_result =
  ret :: int
  optarg :: string
  optind :: nat

definition opt :: "char \<Rightarrow> int" where
  "opt ch = of_char ch"

definition usage :: "string \<Rightarrow> string \<Rightarrow> event list" where
  "usage ver argv0 =
     [Stdout (''fc-char v'' @ ver @ newline),
      Stdout (''Usage: '' @ argv0 @ '' [options] {<hex codepoint>|<character>}'' @ newline),
      Stdout (''Options:'' @ newline),
      Stdout (''--help         / -h        :  Show help (this)'' @ newline),
      Stdout (''--nodisplay    / -N        :  Don't display found glyphs.'' @ newline),
      Stdout (''--maxfonts #   / -m#       :  Maximum number of fonts to return/show.'' @ newline),
      Stdout (''--debug        / -d        :  Print debugging information.'' @ newline),
      Stdout (''--name         / -n        :  Print unicode character name.'' @ newline),
      Stdout (''--annotation   / -a        :  Print unicode character annotation string.'' @ newline),
      Stdout (''--print        / -p        :  Print list of fonts with character.'' @ newline),
      Stdout (''--fixed        / -f        :  Include fixed-size fonts.'' @ newline)]"

text \<open>\<^verbatim>\<open>parse_arguments\<close>: the loop over the results of \<^verbatim>\<open>getopt_long\<close>. The case
  \<^verbatim>\<open>'p'\<close> has no \<^verbatim>\<open>break\<close> and runs on into the case \<^verbatim>\<open>'f'\<close>. The result is \<open>None\<close>
  when the list of results ends before the loop returns (\<^verbatim>\<open>getopt_long\<close> itself always
  ends with -1). The argument vector is the one \<^verbatim>\<open>getopt_long\<close> leaves behind (it moves
  the options in front of the other arguments).\<close>

fun parse_arguments ::
  "string \<Rightarrow> string list \<Rightarrow> getopt_result list \<Rightarrow> args \<Rightarrow> (int \<times> args \<times> event list) option" where
  "parse_arguments ver argv [] a = None"
| "parse_arguments ver argv (r # rs) a =
     (if ret r = opt CHR ''h'' then Some (- 1, a, usage ver (hd argv))
      else if ret r = opt CHR ''N'' then parse_arguments ver argv rs (a\<lparr>display := 0\<rparr>)
      else if ret r = opt CHR ''m'' then parse_arguments ver argv rs (a\<lparr>maxfonts := atoi (optarg r)\<rparr>)
      else if ret r = opt CHR ''d'' then parse_arguments ver argv rs (a\<lparr>debug := 1\<rparr>)
      else if ret r = opt CHR ''n'' then parse_arguments ver argv rs (a\<lparr>showname := 1\<rparr>)
      else if ret r = opt CHR ''a'' then parse_arguments ver argv rs (a\<lparr>showannot := 1\<rparr>)
      else if ret r = opt CHR ''p'' then parse_arguments ver argv rs (a\<lparr>printfonts := 1, fixed := 1\<rparr>)
      else if ret r = opt CHR ''f'' then parse_arguments ver argv rs (a\<lparr>fixed := 1\<rparr>)
      else if optind r < length argv then Some (int (optind r), a, [])
      else Some (- 1, a, []))"

subsection \<open>The character\<close>

record unicode_nameannot =
  name :: "string option"
  annot :: "string option"

datatype FcPattern = FcPattern (FcPatternFormat: "string option")

text \<open>What the libraries answer. \<open>version\<close> is the macro \<^verbatim>\<open>VERSION\<close> of \<^verbatim>\<open>config.h\<close>;
  \<open>iconv_open_ok\<close> says whether \<^verbatim>\<open>iconv_open\<close> gave a descriptor; \<open>iconv_call\<close> gives, for
  the input bytes, the value \<^verbatim>\<open>iconv\<close> returns (a \<^verbatim>\<open>size_t\<close>) and the bytes it wrote to
  the output buffer; \<open>strerror_text\<close> is \<^verbatim>\<open>strerror(errno)\<close>; \<open>UnicodeNameAnnot\<close> is the
  table of libuninameslist; \<open>fc_font_list\<close> is what \<^verbatim>\<open>FcFontList\<close> returns for a pattern
  with or without the \<^verbatim>\<open>FC_SCALABLE\<close> constraint and the character; the family name
  \<^verbatim>\<open>FcPatternFormat\<close> makes of a pattern is a field of the pattern (\<open>None\<close> is NULL).\<close>

record env =
  version :: string
  iconv_open_ok :: bool
  iconv_call :: "string \<Rightarrow> 64 word \<times> 8 word list"
  strerror_text :: string
  UnicodeNameAnnot :: "nat \<Rightarrow> nat \<Rightarrow> nat \<Rightarrow> unicode_nameannot"
  fc_font_list :: "bool \<Rightarrow> 32 word \<Rightarrow> FcPattern list"

record global =
  fs :: "FcPattern list"
  lastpaint :: real
  dirty :: int
  quitdims :: "int list"
  info :: unicode_nameannot
  character :: "32 word"
  hexchar :: string

definition global_init :: global where
  "global_init = \<lparr>fs = [], lastpaint = 0, dirty = 0, quitdims = [0, 0, 0, 0],
                   info = \<lparr>name = None, annot = None\<rparr>, character = 0,
                   hexchar = replicate 11 NUL\<rparr>"

text \<open>\<^verbatim>\<open>*(uint32_t *)outbuf\<close>: the first four bytes of the buffer, least significant
  first (the buffer holds UTF32LE and the program runs on a little-endian machine).\<close>

definition read_uint32 :: "8 word list \<Rightarrow> 32 word" where
  "read_uint32 b = word_of_nat (unat (b ! 0) + 256 * unat (b ! 1) + 65536 * unat (b ! 2)
                                + 16777216 * unat (b ! 3))"

definition outbuf_after :: "8 word list \<Rightarrow> 8 word list" where
  "outbuf_after written = take 10 (written @ replicate 10 0)"

text \<open>\<^verbatim>\<open>convert_char\<close>: the value returned, the output buffer, \<^verbatim>\<open>*uchar\<close> and what was
  printed. \<^verbatim>\<open>converted\<close> is a \<^verbatim>\<open>size_t\<close> and the test \<^verbatim>\<open>converted < 0\<close> compares
  unsigned values.\<close>

definition convert_char ::
  "env \<Rightarrow> string \<Rightarrow> string \<Rightarrow> nat \<Rightarrow> 32 word \<Rightarrow> int \<times> string \<times> 32 word \<times> event list" where
  "convert_char E input output outsize uchar =
     (if \<not> iconv_open_ok E
      then (- 1, output, uchar,
            [Stderr (''Error initializing iconv: '' @ strerror_text E @ newline)])
      else
        let converted = fst (iconv_call E input);
            outbuf = outbuf_after (snd (iconv_call E input))
        in if converted < 0
           then (- 1, output, uchar,
                 [Stderr (''Error converting glyph: '' @ strerror_text E @ newline)])
           else
             let u = read_uint32 outbuf;
                 output' = (if u \<le> 0xFFFF
                            then snprintf output outsize (''U+'' @ printf_0x 4 (unat u))
                            else snprintf output outsize (''U+'' @ printf_0x 8 (unat u)))
             in if u = 0
                then (0, output', u, [Stdout (''Glyph result was 0.'' @ newline)])
                else (1, output', u, []))"

text \<open>The three tests at the head of \<^verbatim>\<open>parse_character\<close>: the token starts with
  \<^verbatim>\<open>0x\<close>, \<^verbatim>\<open>0X\<close> or \<^verbatim>\<open>U+\<close>.\<close>

definition is_hexstring :: "string \<Rightarrow> bool" where
  "is_hexstring s = (starts_with s ''0x'' \<or> starts_with s ''0X'' \<or> starts_with s ''U+'')"

text \<open>\<^verbatim>\<open>parse_character\<close>: the value returned, the globals and what was printed.\<close>

definition parse_character :: "env \<Rightarrow> string \<Rightarrow> global \<Rightarrow> int \<times> global \<times> event list" where
  "parse_character E cchar G =
     (let hexstring = is_hexstring cchar
      in if hexstring
         then (0,
               G\<lparr>hexchar := (strncpy (hexchar G) cchar 11)[0 := CHR ''U'', 1 := CHR ''+''],
                 character := word_of_int (strtol (drop 2 cchar) 16)\<rparr>,
               [])
         else
           (case convert_char E cchar (hexchar G) 11 (character G) of
              (r, output, uchar, out) \<Rightarrow>
                if r = 0
                then (- 1, G\<lparr>hexchar := output, character := uchar\<rparr>,
                      out @ [Stderr (''Failed to convert character encoding.'' @ newline)])
                else (0, G\<lparr>hexchar := output, character := uchar\<rparr>, out)))"

text \<open>\<^verbatim>\<open>generate_fontset\<close>: the name lookup and the one font query. The pattern gets the
  \<^verbatim>\<open>FC_SCALABLE\<close> constraint unless \<^verbatim>\<open>args.fixed\<close> is set.\<close>

definition generate_fontset :: "env \<Rightarrow> args \<Rightarrow> global \<Rightarrow> int \<times> global \<times> event list" where
  "generate_fontset E A G =
     (let c = character G;
          scalable = (fixed A = 0)
      in (0,
          G\<lparr>info := UnicodeNameAnnot E (unat (drop_bit 16 c AND 0x1f))
                                      (unat (drop_bit 8 c AND 0xff)) (unat (c AND 0xff)),
            fs := fc_font_list E scalable c\<rparr>,
          [FcFontList scalable c]))"

subsection \<open>Double precision arithmetic\<close>

text \<open>
  A \<^verbatim>\<open>double\<close> is a real number, an infinity or NaN. Every operation gives the exact
  result rounded to the nearest number with a 53-bit significand, ties to even (\<open>fl\<close>); this
  is IEEE 754 binary64 for magnitudes between \<open>2\<^sup>-\<^sup>1\<^sup>0\<^sup>2\<^sup>2\<close> and
  \<open>2\<^sup>1\<^sup>0\<^sup>2\<^sup>4\<close>, and the program's numbers (products and quotients of 32-bit
  integers, times in milliseconds) are all in that range. The conversion of a 32-bit integer
  to \<^verbatim>\<open>double\<close> is exact. Dividing by zero gives an infinity or NaN; converting a
  \<^verbatim>\<open>double\<close> to \<^verbatim>\<open>int\<close> cuts the fraction off and is undefined (\<open>None\<close>) when the
  value is no number or does not fit 32 bits.
\<close>

datatype double = Fin real | PInf | MInf | NaN

definition round_even :: "real \<Rightarrow> int" where
  "round_even y =
     (let f = \<lfloor>y\<rfloor> in
      if y - of_int f < 1 / 2 then f
      else if 1 / 2 < y - of_int f then f + 1
      else if even f then f else f + 1)"

definition fl :: "real \<Rightarrow> real" where
  "fl x =
     (if x = 0 then 0
      else let e = \<lfloor>log 2 \<bar>x\<bar>\<rfloor>
           in of_int (round_even (x * 2 powi (52 - e))) * 2 powi (e - 52))"

definition d_div :: "real \<Rightarrow> real \<Rightarrow> double" where
  "d_div x y =
     (if y = 0 then (if 0 < x then PInf else if x < 0 then MInf else NaN)
      else Fin (fl (x / y)))"

fun d_sqrt :: "double \<Rightarrow> double" where
  "d_sqrt (Fin x) = (if x < 0 then NaN else Fin (fl (sqrt x)))"
| "d_sqrt PInf = PInf"
| "d_sqrt MInf = NaN"
| "d_sqrt NaN = NaN"

text \<open>\<^verbatim>\<open>round\<close> rounds halves away from zero.\<close>

definition c_round :: "real \<Rightarrow> int" where
  "c_round x = (if 0 \<le> x then \<lfloor>x + 1 / 2\<rfloor> else - \<lfloor>- x + 1 / 2\<rfloor>)"

fun d_round :: "double \<Rightarrow> double" where
  "d_round (Fin x) = Fin (of_int (c_round x))"
| "d_round d = d"

fun d_floor :: "double \<Rightarrow> double" where
  "d_floor (Fin x) = Fin (of_int \<lfloor>x\<rfloor>)"
| "d_floor d = d"

definition c_trunc :: "real \<Rightarrow> int" where
  "c_trunc x = (if 0 \<le> x then \<lfloor>x\<rfloor> else - \<lfloor>- x\<rfloor>)"

fun int_of_double :: "double \<Rightarrow> int option" where
  "int_of_double (Fin x) =
     (if - (2 ^ 31) \<le> c_trunc x \<and> c_trunc x \<le> 2 ^ 31 - 1 then Some (c_trunc x) else None)"
| "int_of_double d = None"

subsection \<open>The grid\<close>

definition VPADDING :: int where
  "VPADDING = 5"

definition HPADDING :: int where
  "HPADDING = 5"

definition FTSPACE :: real where
  "FTSPACE = fl (2 / 10)"

definition FTNAMEFT :: string where
  "FTNAMEFT = ''charter''"

definition TITLEFONT :: string where
  "TITLEFONT = ''charter''"

definition TIMEOUT :: real where
  "TIMEOUT = 100"

text \<open>What the clock, the X server and Xft answer during one turn of the event loop:
  \<^verbatim>\<open>gettimeofday\<close>, the geometry of the window, whether \<^verbatim>\<open>XftFontOpen\<close> gives a font
  for a family (and not NULL), the width of the text \<^verbatim>\<open>Quit\<close> and the height of the
  title font.\<close>

record xworld =
  tv_sec :: int
  tv_usec :: int
  geometry_width :: "32 word"
  geometry_height :: "32 word"
  xft_font_open_ok :: "string \<Rightarrow> bool"
  quit_extents_width :: int
  title_font_height :: int

record grid_geometry =
  nw :: int
  nh :: int
  bw :: int
  bh :: int
  fh :: int
  ch :: int
  frh :: int
  crh :: int
  cw :: int

text \<open>The number of fonts \<^verbatim>\<open>generate_grid\<close> renders (its variable \<^verbatim>\<open>c\<close>), and the
  number \<^verbatim>\<open>main\<close> prints (its variable \<^verbatim>\<open>end\<close>).\<close>

definition grid_count :: "int \<Rightarrow> int \<Rightarrow> int" where
  "grid_count maxf nfont = (if maxf \<noteq> 0 \<and> maxf < nfont then maxf else nfont)"

definition print_count :: "int \<Rightarrow> int \<Rightarrow> int" where
  "print_count maxf nfont = (if 0 < maxf \<and> maxf < nfont then maxf else nfont)"

text \<open>The columns, the rows and the boxes of \<^verbatim>\<open>generate_grid\<close>, in the order the
  function computes them; \<open>None\<close> when a conversion to \<^verbatim>\<open>int\<close> is undefined.\<close>

definition grid_columns :: "int \<Rightarrow> 32 word \<Rightarrow> 32 word \<Rightarrow> int option" where
  "grid_columns c width height =
     int_of_double (d_round (d_sqrt (d_div (fl (of_int c * real (unat width)))
                                           (real (unat height)))))"

definition grid_rows :: "int \<Rightarrow> int \<Rightarrow> int option" where
  "grid_rows c n = int_of_double (d_round (d_div (of_int c) (of_int n)))"

definition box_extent :: "32 word \<Rightarrow> int \<Rightarrow> int option" where
  "box_extent extent n = int_of_double (d_floor (d_div (real (unat extent)) (of_int n)))"

definition name_height :: "int \<Rightarrow> int option" where
  "name_height b = int_of_double (Fin (fl (of_int b * FTSPACE)))"

definition grid_layout :: "int \<Rightarrow> 32 word \<Rightarrow> 32 word \<Rightarrow> grid_geometry option" where
  "grid_layout c width height =
     (case grid_columns c width height of None \<Rightarrow> None | Some n\<^sub>w \<Rightarrow>
      case grid_rows c n\<^sub>w of None \<Rightarrow> None | Some n\<^sub>h \<Rightarrow>
      case box_extent width n\<^sub>w of None \<Rightarrow> None | Some b\<^sub>w \<Rightarrow>
      case box_extent height n\<^sub>h of None \<Rightarrow> None | Some b\<^sub>h \<Rightarrow>
      case name_height b\<^sub>h of None \<Rightarrow> None | Some f\<^sub>h \<Rightarrow>
        Some \<lparr>nw = n\<^sub>w, nh = n\<^sub>h, bw = b\<^sub>w, bh = b\<^sub>h, fh = f\<^sub>h, ch = b\<^sub>h - f\<^sub>h,
              frh = f\<^sub>h - 2 * VPADDING, crh = (b\<^sub>h - f\<^sub>h) - 2 * VPADDING,
              cw = b\<^sub>w - 2 * HPADDING\<rparr>)"

text \<open>\<^verbatim>\<open>gen_scale_title_font\<close> returns NULL when the font cannot be opened or a family
  name cannot be formatted; the size it chooses is not modelled. The result here is whether
  it returns a font.\<close>

definition gen_scale_title_font :: "xworld \<Rightarrow> global \<Rightarrow> string \<Rightarrow> bool" where
  "gen_scale_title_font X G fam =
     (xft_font_open_ok X fam \<and> list_all (\<lambda>f. FcPatternFormat f \<noteq> None) (fs G))"

text \<open>The loop over the cells: the rectangle of each cell. Taking the length of a family
  name that is NULL, or using a glyph font that could not be opened, is undefined.\<close>

fun render_cells :: "xworld \<Rightarrow> grid_geometry \<Rightarrow> int \<Rightarrow> (nat \<times> FcPattern) list \<Rightarrow> event list option" where
  "render_cells X L yoffset [] = Some []"
| "render_cells X L yoffset ((i, f) # rest) =
     (case FcPatternFormat f of
        None \<Rightarrow> None
      | Some fam \<Rightarrow>
          if \<not> xft_font_open_ok X fam then None
          else (case render_cells X L yoffset rest of
                  None \<Rightarrow> None
                | Some evs \<Rightarrow>
                    Some (XDrawRectangle ((int i mod nw L) * bw L)
                                         ((int i div nw L) * bh L + yoffset) (bw L) (bh L)
                          # evs)))"

text \<open>\<^verbatim>\<open>generate_grid\<close>: the value returned and the rectangles drawn, or \<open>None\<close> when
  its behaviour is undefined.\<close>

definition generate_grid ::
  "xworld \<Rightarrow> args \<Rightarrow> global \<Rightarrow> 32 word \<Rightarrow> 32 word \<Rightarrow> int \<Rightarrow> (int \<times> event list) option" where
  "generate_grid X A G width height yoffset =
     (let c = grid_count (maxfonts A) (int (length (fs G)))
      in case grid_layout c width height of
           None \<Rightarrow> None
         | Some L \<Rightarrow>
             if frh L \<le> 0 \<or> crh L \<le> 0 \<or> cw L \<le> 0 then Some (- 1, [])
             else if \<not> gen_scale_title_font X G FTNAMEFT then Some (- 1, [])
             else (case render_cells X L yoffset (zip [0 ..< nat c] (fs G)) of
                     None \<Rightarrow> None
                   | Some evs \<Rightarrow> Some (0, evs)))"

subsection \<open>The window\<close>

text \<open>\<^verbatim>\<open>paint_window\<close> returns nothing: the value \<^verbatim>\<open>generate_grid\<close> returns is dropped.
  The height handed to the grid is \<^verbatim>\<open>height - offset\<close> in unsigned arithmetic.\<close>

definition paint_window :: "xworld \<Rightarrow> args \<Rightarrow> global \<Rightarrow> (global \<times> event list) option" where
  "paint_window X A G =
     (if \<not> xft_font_open_ok X TITLEFONT then None
      else
        let w = 2 * HPADDING + quit_extents_width X;
            h = 2 * VPADDING + title_font_height X;
            G' = G\<lparr>quitdims := [HPADDING, VPADDING, w, h]\<rparr>;
            offset = h + 2 * VPADDING
        in case generate_grid X A G' (geometry_width X)
                  (geometry_height X - word_of_int offset) offset of
             None \<Rightarrow> None
           | Some (r, evs) \<Rightarrow> Some (G', XDrawRectangle HPADDING VPADDING w h # evs))"

text \<open>The time of \<^verbatim>\<open>maybe_paint_window\<close> in milliseconds, as the function computes it in
  \<^verbatim>\<open>double\<close>, and the function.\<close>

definition now_ms :: "xworld \<Rightarrow> real" where
  "now_ms X = fl (fl (of_int (tv_sec X) + fl (of_int (tv_usec X) / 1000000)) * 1000)"

definition maybe_paint_window :: "xworld \<Rightarrow> args \<Rightarrow> global \<Rightarrow> (global \<times> event list) option" where
  "maybe_paint_window X A G =
     (let now = now_ms X;
          diff = fl (now - lastpaint G)
      in if TIMEOUT < diff \<and> dirty G \<noteq> 0
         then (case paint_window X A G of
                 None \<Rightarrow> None
               | Some (G', evs) \<Rightarrow> Some (G'\<lparr>dirty := 0, lastpaint := now\<rparr>, evs))
         else Some (G, []))"

definition check_quit_bounds :: "global \<Rightarrow> int \<Rightarrow> int \<Rightarrow> int" where
  "check_quit_bounds G x y =
     (let dx = x - quitdims G ! 0
      in if dx < 0 \<or> quitdims G ! 2 < dx then 0
         else let dy = y - quitdims G ! 1
              in if dy < 0 \<or> quitdims G ! 3 < dy then 0 else 1)"

subsection \<open>The program\<close>

text \<open>What \<^verbatim>\<open>XNextEventTimed\<close> delivers in one turn of the loop: nothing within the
  timeout, or an event.\<close>

datatype XEvent = Expose | ButtonPress int int | ButtonRelease int int | OtherEvent int

text \<open>How a run ends: the program returns, its behaviour is undefined, or the answers
  given to the model (results of \<^verbatim>\<open>getopt_long\<close>, turns of the event loop) end while the
  program still runs.\<close>

datatype 'a outcome = Returns 'a | Undefined | Starved

text \<open>\<^verbatim>\<open>printf("%d")\<close>.\<close>

fun dec_of_nat :: "nat \<Rightarrow> string" where
  "dec_of_nat n =
     (if n < 10 then [char_of (48 + n)] else dec_of_nat (n div 10) @ [char_of (48 + n mod 10)])"

declare dec_of_nat.simps [simp del]

definition printf_d :: "int \<Rightarrow> string" where
  "printf_d i = (if i < 0 then CHR ''-'' # dec_of_nat (nat (- i)) else dec_of_nat (nat i))"

text \<open>The event loop of \<^verbatim>\<open>main\<close>: the globals and the trace when the loop is left.\<close>

fun event_loop ::
  "args \<Rightarrow> (xworld \<times> XEvent option) list \<Rightarrow> global \<Rightarrow> (global \<times> event list) outcome" where
  "event_loop A [] G = Starved"
| "event_loop A ((X, None) # rest) G =
     (case maybe_paint_window X A G of
        None \<Rightarrow> Undefined
      | Some (G', evs) \<Rightarrow>
          (case event_loop A rest G' of
             Returns (G'', evs') \<Rightarrow> Returns (G'', evs @ evs')
           | Undefined \<Rightarrow> Undefined
           | Starved \<Rightarrow> Starved))"
| "event_loop A ((X, Some Expose) # rest) G =
     (case maybe_paint_window X A (G\<lparr>dirty := 1\<rparr>) of
        None \<Rightarrow> Undefined
      | Some (G', evs) \<Rightarrow>
          (case event_loop A rest G' of
             Returns (G'', evs') \<Rightarrow> Returns (G'', evs @ evs')
           | Undefined \<Rightarrow> Undefined
           | Starved \<Rightarrow> Starved))"
| "event_loop A ((X, Some (ButtonPress x y)) # rest) G = event_loop A rest G"
| "event_loop A ((X, Some (ButtonRelease x y)) # rest) G =
     (if check_quit_bounds G x y \<noteq> 0 then Returns (G, []) else event_loop A rest G)"
| "event_loop A ((X, Some (OtherEvent t)) # rest) G =
     Returns (G, [Stderr (''Unhandled X11 message '' @ printf_d t @ ''. Exiting.'' @ newline)])"

text \<open>The loop that prints the families; the flag says whether it ran to its end.\<close>

fun print_families :: "FcPattern list \<Rightarrow> event list \<times> bool" where
  "print_families [] = ([], True)"
| "print_families (f # rest) =
     (case FcPatternFormat f of
        None \<Rightarrow> ([Stderr (''Error formatting font family.'' @ newline)], False)
      | Some fam \<Rightarrow>
          (case print_families rest of (evs, ok) \<Rightarrow> (Stdout (fam @ newline) # evs, ok)))"

definition show_name :: "args \<Rightarrow> global \<Rightarrow> event list" where
  "show_name A G =
     (if showname A \<noteq> 0
      then (case name (info G) of
              Some n \<Rightarrow> [Stdout (''Name: '' @ n @ newline)]
            | None \<Rightarrow> [Stdout (''Name lookup failed.'' @ newline)])
      else [])"

definition show_annot :: "args \<Rightarrow> global \<Rightarrow> event list" where
  "show_annot A G =
     (if showannot A \<noteq> 0
      then (case annot (info G) of
              Some n \<Rightarrow> [Stdout (n @ newline)]
            | None \<Rightarrow> [Stdout (''Annotation lookup failed.'' @ newline)])
      else [])"

text \<open>The part of \<^verbatim>\<open>main\<close> after the window: name, annotation and font list.\<close>

definition report :: "args \<Rightarrow> global \<Rightarrow> int \<times> event list" where
  "report A G =
     (let fin = print_count (maxfonts A) (int (length (fs G)));
          listed = (if printfonts A \<noteq> 0 then print_families (take (nat fin) (fs G))
                    else ([], True))
      in (if snd listed then 0 else 1, show_name A G @ show_annot A G @ fst listed))"

text \<open>\<^verbatim>\<open>main\<close>: the exit status and the trace. The values \<^verbatim>\<open>parse_character\<close> and
  \<^verbatim>\<open>generate_fontset\<close> return are dropped. Opening and closing the window
  (\<^verbatim>\<open>initialize_x11\<close>, \<^verbatim>\<open>close_x11\<close>) touch none of the modelled state.\<close>

definition main ::
  "env \<Rightarrow> string list \<Rightarrow> getopt_result list \<Rightarrow> (xworld \<times> XEvent option) list
     \<Rightarrow> (int \<times> event list) outcome" where
  "main E argv getopts turns =
     (case parse_arguments (version E) argv getopts args_init of
        None \<Rightarrow> Starved
      | Some (cindex, A, out0) \<Rightarrow>
          if cindex < 0
          then Returns (1, out0 @ [Stderr (''Must supply a character value.'' @ newline)])
          else
            (case parse_character E (argv ! nat cindex) global_init of
               (r1, G1, out1) \<Rightarrow>
                 (case generate_fontset E A G1 of
                    (r2, G2, out2) \<Rightarrow>
                      if display A \<noteq> 0
                      then (case event_loop A turns (G2\<lparr>lastpaint := - 1, dirty := 1\<rparr>) of
                              Returns (G3, out3) \<Rightarrow>
                                (case report A G3 of
                                   (status, out4) \<Rightarrow>
                                     Returns (status, out0 @ out1 @ out2 @ out3 @ out4))
                            | Undefined \<Rightarrow> Undefined
                            | Starved \<Rightarrow> Starved)
                      else (case report A G2 of
                              (status, out4) \<Rightarrow>
                                Returns (status, out0 @ out1 @ out2 @ out4)))))"

subsection \<open>Inputs of the example runs\<close>

text \<open>The results of \<^verbatim>\<open>getopt_long\<close> on which the loop of \<^verbatim>\<open>parse_arguments\<close>
  goes on: the letters of the flags other than help.\<close>

definition continues :: "getopt_result \<Rightarrow> bool" where
  "continues r = (ret r \<in> {opt CHR ''N'', opt CHR ''m'', opt CHR ''d'', opt CHR ''n'',
                            opt CHR ''a'', opt CHR ''p'', opt CHR ''f''})"

definition getopt :: "char \<Rightarrow> nat \<Rightarrow> getopt_result" where
  "getopt letter i = \<lparr>ret = opt letter, optarg = [], optind = i\<rparr>"

definition getopt_arg :: "char \<Rightarrow> string \<Rightarrow> nat \<Rightarrow> getopt_result" where
  "getopt_arg letter v i = \<lparr>ret = opt letter, optarg = v, optind = i\<rparr>"

definition getopt_end :: "nat \<Rightarrow> getopt_result" where
  "getopt_end i = \<lparr>ret = - 1, optarg = [], optind = i\<rparr>"

definition no_names :: "nat \<Rightarrow> nat \<Rightarrow> nat \<Rightarrow> unicode_nameannot" where
  "no_names a b c = \<lparr>name = None, annot = None\<rparr>"

definition sans :: FcPattern where
  "sans = FcPattern (Some ''DejaVu Sans'')"

definition fixed_font :: FcPattern where
  "fixed_font = FcPattern (Some ''Fixed'')"

text \<open>A system with one outline font and one bitmap font; iconv converts the empty
  string (nothing is written, 0 is returned).\<close>

definition latin_env :: env where
  "latin_env =
     \<lparr>version = ''1.0'', iconv_open_ok = True, iconv_call = (\<lambda>s. (0, [])),
      strerror_text = ''Success'', UnicodeNameAnnot = no_names,
      fc_font_list = (\<lambda>scalable c. if scalable then [sans] else [sans, fixed_font])\<rparr>"

text \<open>A system whose iconv rejects the input: it returns \<^verbatim>\<open>(size_t) -1\<close> and writes
  nothing. And one where \<^verbatim>\<open>iconv_open\<close> fails.\<close>

definition illegal_sequence_env :: env where
  "illegal_sequence_env =
     \<lparr>version = ''1.0'', iconv_open_ok = True, iconv_call = (\<lambda>s. (- 1, [])),
      strerror_text = ''Invalid or incomplete multibyte or wide character'',
      UnicodeNameAnnot = no_names, fc_font_list = (\<lambda>scalable c. [])\<rparr>"

definition no_iconv_env :: env where
  "no_iconv_env =
     illegal_sequence_env\<lparr>iconv_open_ok := False, strerror_text := ''Invalid argument''\<rparr>"

text \<open>A system in a UTF-8 locale: iconv converts the two characters given and rejects
  everything else.\<close>

definition utf8_env :: env where
  "utf8_env =
     \<lparr>version = ''1.0'', iconv_open_ok = True,
      iconv_call = (\<lambda>s. if s = [CHR 0xC3, CHR 0xA9] then (0, [0xE9, 0, 0, 0])
                         else if s = [CHR 0xF0, CHR 0x9F, CHR 0x98, CHR 0x80]
                         then (0, [0x00, 0xF6, 0x01, 0x00])
                         else (- 1, [])),
      strerror_text = ''Invalid or incomplete multibyte or wide character'',
      UnicodeNameAnnot = no_names, fc_font_list = (\<lambda>scalable c. [sans])\<rparr>"

text \<open>A system with five fonts for every character.\<close>

definition five_fonts_env :: env where
  "five_fonts_env =
     \<lparr>version = ''1.0'', iconv_open_ok = True, iconv_call = (\<lambda>s. (0, [])),
      strerror_text = ''Success'', UnicodeNameAnnot = no_names,
      fc_font_list = (\<lambda>scalable c.
         [FcPattern (Some ''DejaVu Sans''), FcPattern (Some ''DejaVu Serif''),
          FcPattern (Some ''FreeMono''), FcPattern (Some ''FreeSans''),
          FcPattern (Some ''FreeSerif'')])\<rparr>"

text \<open>A turn of the event loop at second 1000 in a window of the given width and height,
  with every font at hand, a quit label 30 pixels wide and a title font 20 pixels high. And
  the globals after \<^verbatim>\<open>generate_fontset\<close> found one font, at the start of the loop.\<close>

definition window :: "32 word \<Rightarrow> 32 word \<Rightarrow> xworld" where
  "window w h =
     \<lparr>tv_sec = 1000, tv_usec = 0, geometry_width = w, geometry_height = h,
      xft_font_open_ok = (\<lambda>fam. True), quit_extents_width = 30, title_font_height = 20\<rparr>"

definition one_font :: global where
  "one_font = global_init\<lparr>fs := [sans], lastpaint := - 1, dirty := 1\<rparr>"

section \<open>Properties\<close>

subsection \<open>Command line\<close>

lemma parse_arguments_continues:
  "list_all continues pre \<Longrightarrow>
     \<exists>a'. parse_arguments ver argv (pre @ rs) a = parse_arguments ver argv rs a'"
proof (induction pre arbitrary: a)
  case Nil
  then show ?case by auto
next
  case (Cons r pre)
  then have c: "continues r" and p: "list_all continues pre" by simp_all
  from c have "\<exists>a1. parse_arguments ver argv ((r # pre) @ rs) a
                       = parse_arguments ver argv (pre @ rs) a1"
    by (auto simp: continues_def opt_def)
  then obtain a1 where "parse_arguments ver argv ((r # pre) @ rs) a
                          = parse_arguments ver argv (pre @ rs) a1" ..
  with Cons.IH [OF p, of a1] show ?case by auto
qed

lemma parse_arguments_fixed_kept:
  "parse_arguments ver argv rs a = Some (i, a', out) \<Longrightarrow> fixed a = 1 \<Longrightarrow> fixed a' = 1"
  by (induction ver argv rs a rule: parse_arguments.induct) (auto split: if_splits)

text \<open>Whatever flags come before and after it, \<^verbatim>\<open>--print\<close> leaves \<^verbatim>\<open>args.fixed\<close>
  set: the case \<^verbatim>\<open>'p'\<close> falls through into the case \<^verbatim>\<open>'f'\<close>.\<close>

lemma print_sets_fixed:
  assumes "list_all continues pre" and "ret r = opt CHR ''p''"
    and "parse_arguments ver argv (pre @ r # rs) a = Some (i, a', out)"
  shows "fixed a' = 1"
proof -
  obtain a1 where 1: "parse_arguments ver argv (pre @ r # rs) a
                      = parse_arguments ver argv (r # rs) a1"
    using parse_arguments_continues [OF assms(1)] by blast
  have "parse_arguments ver argv (r # rs) a1
        = parse_arguments ver argv rs (a1\<lparr>printfonts := 1, fixed := 1\<rparr>)"
    using assms(2) by (simp add: opt_def)
  with 1 assms(3)
  have "parse_arguments ver argv rs (a1\<lparr>printfonts := 1, fixed := 1\<rparr>) = Some (i, a', out)"
    by simp
  then show ?thesis by (rule parse_arguments_fixed_kept) simp
qed

text \<open>
  Claim C3 says that \<^verbatim>\<open>--print\<close> only prints the families and leaves the matching
  alone, so that without \<^verbatim>\<open>--fixed\<close> only scalable fonts are eligible. The code does
  otherwise: \<^verbatim>\<open>fc-char -N -p 0x41\<close> queries the fonts without the scalable constraint
  and lists the bitmap font, while \<^verbatim>\<open>fc-char -N 0x41\<close> queries with it.
\<close>

theorem print_flag_drops_scalable_constraint:
  "main latin_env [''fc-char'', ''-N'', ''-p'', ''0x41'']
        [getopt CHR ''N'' 2, getopt CHR ''p'' 3, getopt_end 3] []
     = Returns (0, [FcFontList False 0x41,
                    Stdout (''DejaVu Sans'' @ newline), Stdout (''Fixed'' @ newline)])
   \<and> main latin_env [''fc-char'', ''-N'', ''0x41'']
        [getopt CHR ''N'' 2, getopt_end 2] []
     = Returns (0, [FcFontList True 0x41])"
  by (simp add: main_def opt_def args_init_def latin_env_def parse_character_def is_hexstring_def starts_with_def
     generate_fontset_def global_init_def report_def getopt_def getopt_end_def
     print_count_def show_name_def show_annot_def Let_def no_names_def strtol_def
     has_hex_prefix_def digit_value_def isspace_c_def sans_def fixed_font_def)

text \<open>
  Claim C4, as amended. When \<^verbatim>\<open>getopt_long\<close> reports the help flag (after any other
  flags), the program prints the usage text, then the message
  \<^verbatim>\<open>Must supply a character value.\<close> on standard error, and exits with status 1; nothing
  else happens (no character is resolved, no font is queried). When no positional argument
  is left (\<^verbatim>\<open>getopt_long\<close> ends with \<^verbatim>\<open>optind\<close> at \<^verbatim>\<open>argc\<close> or beyond), the program
  prints that message and exits with status 1.
\<close>

theorem help_exits_with_status_1:
  assumes "list_all continues pre"
  shows "(ret r = opt CHR ''h'' \<longrightarrow>
            main E argv (pre @ r # rest) turns
              = Returns (1, usage (version E) (hd argv)
                            @ [Stderr (''Must supply a character value.'' @ newline)]))
       \<and> (\<not> continues r \<and> ret r \<noteq> opt CHR ''h'' \<and> length argv \<le> optind r \<longrightarrow>
            main E argv (pre @ r # rest) turns
              = Returns (1, [Stderr (''Must supply a character value.'' @ newline)]))"
proof -
  obtain a1 where 1: "parse_arguments (version E) argv (pre @ r # rest) args_init
                      = parse_arguments (version E) argv (r # rest) a1"
    using parse_arguments_continues [OF assms] by blast
  show ?thesis
    by (auto simp: main_def 1 continues_def)
qed

text \<open>Claim C4 as stated fails: \<^verbatim>\<open>fc-char --help\<close> exits with status 1, not 0.\<close>

theorem help_exit_status_counterexample:
  "main latin_env [''fc-char'', ''--help''] [getopt CHR ''h'' 2] []
     = Returns (1, usage ''1.0'' ''fc-char''
                   @ [Stderr (''Must supply a character value.'' @ newline)])"
  by (simp add: main_def getopt_def args_init_def latin_env_def)

theorem help_exits_with_status_1_witness:
  "list_all continues [getopt CHR ''N'' 2]
   \<and> main latin_env [''fc-char'', ''-N'', ''--help''] [getopt CHR ''N'' 2, getopt CHR ''h'' 3] []
       = Returns (1, usage ''1.0'' ''fc-char''
                     @ [Stderr (''Must supply a character value.'' @ newline)])
   \<and> main latin_env [''fc-char'', ''-N''] [getopt CHR ''N'' 2, getopt_end 2] []
       = Returns (1, [Stderr (''Must supply a character value.'' @ newline)])"
proof -
  have c: "list_all continues [getopt CHR ''N'' 2]"
    by (simp add: continues_def getopt_def)
  have h: "ret (getopt CHR ''h'' 3) = opt CHR ''h''"
    by (simp add: getopt_def)
  have e: "\<not> continues (getopt_end 2) \<and> ret (getopt_end 2) \<noteq> opt CHR ''h''
           \<and> length [''fc-char'', ''-N''] \<le> optind (getopt_end 2)"
    by (simp add: continues_def getopt_end_def opt_def)
  from help_exits_with_status_1 [OF c, where r = "getopt CHR ''h'' 3" and E = latin_env
      and argv = "[''fc-char'', ''-N'', ''--help'']" and rest = "[]" and turns = "[]"] h
  have 1: "main latin_env [''fc-char'', ''-N'', ''--help'']
             [getopt CHR ''N'' 2, getopt CHR ''h'' 3] []
           = Returns (1, usage ''1.0'' ''fc-char''
                         @ [Stderr (''Must supply a character value.'' @ newline)])"
    by (simp add: latin_env_def)
  from help_exits_with_status_1 [OF c, where r = "getopt_end 2" and E = latin_env
      and argv = "[''fc-char'', ''-N'']" and rest = "[]" and turns = "[]"] e
  have 2: "main latin_env [''fc-char'', ''-N''] [getopt CHR ''N'' 2, getopt_end 2] []
           = Returns (1, [Stderr (''Must supply a character value.'' @ newline)])"
    by simp
  from c 1 2 show ?thesis by simp
qed

subsection \<open>The character\<close>

lemma convert_char_ret_cases:
  "fst (convert_char E input output outsize uchar) \<in> {- 1, 0, 1}"
  by (simp add: convert_char_def Let_def)

lemma length_hex_of_nat_le: "n < 16 ^ k \<Longrightarrow> 0 < k \<Longrightarrow> length (hex_of_nat n) \<le> k"
proof (induction k arbitrary: n)
  case 0
  then show ?case by simp
next
  case (Suc k)
  show ?case
  proof (cases "n < 16")
    case True
    then show ?thesis by (simp add: hex_of_nat.simps [of n])
  next
    case False
    with Suc.prems have k: "0 < k" by (cases k) auto
    from Suc.prems have "n div 16 < 16 ^ k" by (simp add: less_mult_imp_div_less mult.commute)
    from Suc.IH [OF this k] False show ?thesis by (simp add: hex_of_nat.simps [of n])
  qed
qed

lemma length_hex_of_nat_gt: "16 ^ k \<le> n \<Longrightarrow> k < length (hex_of_nat n)"
proof (induction k arbitrary: n)
  case 0
  then show ?case by (simp add: hex_of_nat.simps [of n])
next
  case (Suc k)
  have "(1::nat) \<le> 16 ^ k" by simp
  with Suc.prems have n: "\<not> n < 16" by (simp only: power_Suc)
  from Suc.prems have "16 ^ k \<le> n div 16" by (simp add: less_eq_div_iff_mult_less_eq mult.commute)
  from Suc.IH [OF this] n show ?case by (simp add: hex_of_nat.simps [of n])
qed

lemma set_hex_of_nat: "set (hex_of_nat n) \<subseteq> set ''0123456789abcdef''"
proof (induction n rule: hex_of_nat.induct)
  case (1 n)
  have d: "hexdigit m \<in> set ''0123456789abcdef''" if "m < 16" for m
    unfolding hexdigit_def by (rule nth_mem) (use that in simp)
  show ?case
  proof (cases "n < 16")
    case True
    with d [of n] show ?thesis by (subst hex_of_nat.simps) simp
  next
    case False
    have "n mod 16 < 16" by simp
    with 1 False d [of "n mod 16"] show ?thesis by (subst hex_of_nat.simps) simp
  qed
qed

lemma set_printf_0x: "set (printf_0x w n) \<subseteq> set ''0123456789abcdef''"
  using set_hex_of_nat [of n] by (auto simp: printf_0x_def Let_def)

lemma length_printf_0x: "length (hex_of_nat n) \<le> w \<Longrightarrow> length (printf_0x w n) = w"
  by (simp add: printf_0x_def Let_def)

lemma NUL_notin_printf_0x: "NUL \<notin> set (printf_0x w n)"
  using set_printf_0x [of w n] by (auto simp: NUL_def)

lemma cstring_snprintf:
  "NUL \<notin> set s \<Longrightarrow> length s < n \<Longrightarrow> cstring (snprintf dst n s) = Some s"
  by (auto simp: cstring_def snprintf_def Let_def takeWhile_tail)

text \<open>The digits \<^verbatim>\<open>printf\<close> writes denote the number.\<close>

lemma digit_value_hexdigit_all:
  "list_all (\<lambda>d. digit_value (hexdigit d) = Some d) [0 ..< 16]"
  by code_simp

lemma digit_value_hexdigit: "d < 16 \<Longrightarrow> digit_value (hexdigit d) = Some d"
  using digit_value_hexdigit_all by (simp add: list_all_iff)

lemma accumulate_digits_append:
  "list_all (\<lambda>x. \<exists>d. digit_value x = Some d \<and> d < b) xs \<Longrightarrow>
   accumulate_digits b acc (xs @ ys) = accumulate_digits b (accumulate_digits b acc xs) ys"
  by (induction xs arbitrary: acc) auto

lemma digits_hex_of_nat:
  "list_all (\<lambda>x. \<exists>d. digit_value x = Some d \<and> d < 16) (hex_of_nat n)"
proof (induction n rule: hex_of_nat.induct)
  case (1 n)
  show ?case
  proof (cases "n < 16")
    case True
    then show ?thesis by (subst hex_of_nat.simps) (simp add: digit_value_hexdigit)
  next
    case False
    have "n mod 16 < 16" by simp
    with 1 False show ?thesis by (subst hex_of_nat.simps) (simp add: digit_value_hexdigit)
  qed
qed

lemma accumulate_hex_of_nat:
  "accumulate_digits 16 acc (hex_of_nat n) = acc * 16 ^ length (hex_of_nat n) + n"
proof (induction n arbitrary: acc rule: hex_of_nat.induct)
  case (1 n)
  show ?case
  proof (cases "n < 16")
    case True
    then show ?thesis by (simp add: hex_of_nat.simps [of n] digit_value_hexdigit)
  next
    case False
    have m: "n mod 16 < 16" by simp
    have "accumulate_digits 16 acc (hex_of_nat n)
          = accumulate_digits 16 (accumulate_digits 16 acc (hex_of_nat (n div 16))) [hexdigit (n mod 16)]"
      using False by (simp add: hex_of_nat.simps [of n] accumulate_digits_append digits_hex_of_nat)
    also have "\<dots> = 16 * (acc * 16 ^ length (hex_of_nat (n div 16)) + n div 16) + n mod 16"
      using 1 [OF False] m by (simp add: digit_value_hexdigit)
    also have "\<dots> = acc * 16 ^ length (hex_of_nat n) + n"
      using False by (simp add: hex_of_nat.simps [of n] algebra_simps)
    finally show ?thesis .
  qed
qed

lemma accumulate_zeros:
  "accumulate_digits 16 0 (replicate k CHR ''0'' @ xs) = accumulate_digits 16 0 xs"
  by (induction k) (simp_all add: digit_value_def)

lemma accumulate_printf_0x: "accumulate_digits 16 0 (printf_0x w n) = n"
  by (simp add: printf_0x_def Let_def accumulate_zeros accumulate_hex_of_nat)

lemma printf_0x_4: "n \<le> 0xFFFF \<Longrightarrow> length (printf_0x 4 n) = 4"
  by (rule length_printf_0x, rule length_hex_of_nat_le) simp_all

lemma printf_0x_8: "0xFFFF < n \<Longrightarrow> n < 2 ^ 32 \<Longrightarrow> length (printf_0x 8 n) = 8"
  by (rule length_printf_0x, rule length_hex_of_nat_le) simp_all

lemma is_hexstring_cases:
  "is_hexstring s \<Longrightarrow> \<exists>a b r. s = a # b # r"
  by (cases s; cases "tl s") (auto simp: is_hexstring_def starts_with_def)

lemma hexchar_of_hexstring:
  assumes "is_hexstring s" and "length s \<le> 10" and "NUL \<notin> set s"
  shows "cstring ((strncpy dst s 11)[0 := CHR ''U'', 1 := CHR ''+'']) = Some (''U+'' @ drop 2 s)"
proof -
  from assms(1) obtain a b r where s: "s = a # b # r"
    using is_hexstring_cases by blast
  with assms(2) have l: "length r \<le> 8" by simp
  from s assms(3) have n: "NUL \<notin> set r" by simp
  have "(strncpy dst s 11)[0 := CHR ''U'', 1 := CHR ''+'']
        = ''U+'' @ r @ replicate (9 - length r) NUL @ drop 11 dst"
    using l by (simp add: strncpy_def s)
  moreover have "replicate (9 - length r) NUL = NUL # replicate (8 - length r) NUL"
    using l by (simp add: Suc_diff_le flip: replicate_Suc)
  ultimately show ?thesis
    using n by (auto simp: cstring_def s NUL_def takeWhile_tail)
qed

text \<open>
  Claim C2, as amended. For a literal character (a token that is not in hex form) that
  \<^verbatim>\<open>convert_char\<close> converts, \<^verbatim>\<open>global.hexchar\<close> holds \<^verbatim>\<open>U+\<close> followed by the
  lower-case hexadecimal digits of the code point: exactly 4, padded with zeros, when the
  code point is at most 0xFFFF (6 characters) and exactly 8 otherwise (10 characters). For
  a hex token of at most 10 characters it holds \<^verbatim>\<open>U+\<close> followed by the token's own
  characters after the two of its prefix, neither padded nor checked, and the code point is
  what \<^verbatim>\<open>strtol\<close> reads from them in base 16.
\<close>

theorem display_form:
  "(\<not> is_hexstring cchar \<and> iconv_open_ok E \<longrightarrow>
      (case parse_character E cchar G of
         (r, G', out) \<Rightarrow>
           \<exists>ds. cstring (hexchar G') = Some (''U+'' @ ds)
              \<and> set ds \<subseteq> set ''0123456789abcdef''
              \<and> accumulate_digits 16 0 ds = unat (character G')
              \<and> length ds = (if character G' \<le> 0xFFFF then 4 else 8)))
   \<and> (is_hexstring cchar \<and> length cchar \<le> 10 \<and> NUL \<notin> set cchar \<longrightarrow>
      (case parse_character E cchar G of
         (r, G', out) \<Rightarrow>
           cstring (hexchar G') = Some (''U+'' @ drop 2 cchar)
         \<and> character G' = word_of_int (strtol (drop 2 cchar) 16)))"
proof (intro conjI impI)
  assume a: "\<not> is_hexstring cchar \<and> iconv_open_ok E"
  define u where "u = read_uint32 (outbuf_after (snd (iconv_call E cchar)))"
  define w :: nat where "w = (if u \<le> 0xFFFF then 4 else 8)"
  have ul: "unat u < 2 ^ 32" using unsigned_less [of u] by simp
  have len: "length (printf_0x w (unat u)) = w"
  proof (cases "u \<le> 0xFFFF")
    case True
    then have "unat u \<le> 0xFFFF" by (simp add: word_le_nat_alt)
    then show ?thesis using True by (simp add: w_def printf_0x_4)
  next
    case False
    then have "0xFFFF < unat u" by (simp add: word_le_nat_alt not_le)
    then show ?thesis using False ul by (simp add: w_def printf_0x_8)
  qed
  have w10: "w \<le> 8" by (simp add: w_def)
  have c: "cstring (snprintf (hexchar G) 11 (''U+'' @ printf_0x w (unat u)))
           = Some (''U+'' @ printf_0x w (unat u))"
    by (rule cstring_snprintf) (use NUL_notin_printf_0x len w10 in \<open>auto simp: NUL_def\<close>)
  have p: "parse_character E cchar G
           = (if u = 0 then - 1 else 0,
              G\<lparr>hexchar := snprintf (hexchar G) 11 (''U+'' @ printf_0x w (unat u)), character := u\<rparr>,
              if u = 0 then [Stdout (''Glyph result was 0.'' @ newline),
                             Stderr (''Failed to convert character encoding.'' @ newline)]
              else [])"
    using a by (simp add: parse_character_def is_hexstring_def convert_char_def Let_def u_def w_def)
  show "case parse_character E cchar G of
         (r, G', out) \<Rightarrow>
           \<exists>ds. cstring (hexchar G') = Some (''U+'' @ ds)
              \<and> set ds \<subseteq> set ''0123456789abcdef''
              \<and> accumulate_digits 16 0 ds = unat (character G')
              \<and> length ds = (if character G' \<le> 0xFFFF then 4 else 8)"
    unfolding p using c len set_printf_0x [of w "unat u"] accumulate_printf_0x [of w "unat u"]
    by (auto simp: w_def)
next
  assume a: "is_hexstring cchar \<and> length cchar \<le> 10 \<and> NUL \<notin> set cchar"
  then show "case parse_character E cchar G of
         (r, G', out) \<Rightarrow>
           cstring (hexchar G') = Some (''U+'' @ drop 2 cchar)
         \<and> character G' = word_of_int (strtol (drop 2 cchar) 16)"
    using hexchar_of_hexstring [of cchar "hexchar G"]
    by (simp add: parse_character_def is_hexstring_def Let_def)
qed


lemma replicate_num: "replicate (numeral k) x = x # replicate (pred_numeral k) x"
  by (simp add: numeral_eq_Suc)

text \<open>Claim C2 as stated fails: the hex token \<^verbatim>\<open>0x41\<close> resolves to code point 65
  with the display form \<^verbatim>\<open>U+41\<close>, which has two digits and four characters.\<close>

theorem display_form_counterexample:
  "(case parse_character latin_env ''0x41'' global_init of
      (r, G', out) \<Rightarrow> character G' = 65 \<and> cstring (hexchar G') = Some ''U+41'')"
  by (simp add: parse_character_def is_hexstring_def starts_with_def Let_def global_init_def strncpy_def
      cstring_def NUL_def strtol_def isspace_c_def has_hex_prefix_def digit_value_def)

lemma convert_e_acute:
  "parse_character utf8_env [CHR 0xC3, CHR 0xA9] global_init
     = (0, global_init\<lparr>hexchar := ''U+00e9'' @ replicate 5 NUL, character := 0xE9\<rparr>, [])"
  by (simp add: parse_character_def is_hexstring_def starts_with_def Let_def global_init_def convert_char_def
      utf8_env_def outbuf_after_def read_uint32_def snprintf_def printf_0x_def
      hex_of_nat.simps [of 233] hex_of_nat.simps [of 14] hexdigit_def replicate_num)

theorem display_form_witness:
  "\<not> is_hexstring [CHR 0xC3, CHR 0xA9] \<and> iconv_open_ok utf8_env
   \<and> (case parse_character utf8_env [CHR 0xC3, CHR 0xA9] global_init of
        (r, G', out) \<Rightarrow> character G' = 0xE9 \<and> cstring (hexchar G') = Some ''U+00e9''
           \<and> (\<exists>ds. cstring (hexchar G') = Some (''U+'' @ ds) \<and> length ds = 4))
   \<and> is_hexstring ''U+1F600'' \<and> length ''U+1F600'' \<le> 10 \<and> NUL \<notin> set ''U+1F600''
   \<and> (case parse_character utf8_env ''U+1F600'' global_init of
        (r, G', out) \<Rightarrow> character G' = 0x1F600 \<and> cstring (hexchar G') = Some ''U+1F600'')"
proof -
  have h1: "\<not> is_hexstring [CHR 0xC3, CHR 0xA9] \<and> iconv_open_ok utf8_env"
    by (simp add: is_hexstring_def starts_with_def utf8_env_def)
  have h2: "is_hexstring ''U+1F600'' \<and> length ''U+1F600'' \<le> 10 \<and> NUL \<notin> set ''U+1F600''"
    by (simp add: is_hexstring_def starts_with_def NUL_def)
  have v: "word_of_int (strtol (drop 2 ''U+1F600'') 16) = (0x1F600 :: 32 word)"
    by (simp add: strtol_def isspace_c_def has_hex_prefix_def digit_value_def)
  from display_form [where cchar = "[CHR 0xC3, CHR 0xA9]" and E = utf8_env and G = global_init] h1
  have 1: "case parse_character utf8_env [CHR 0xC3, CHR 0xA9] global_init of
        (r, G', out) \<Rightarrow> character G' = 0xE9 \<and> cstring (hexchar G') = Some ''U+00e9''
           \<and> (\<exists>ds. cstring (hexchar G') = Some (''U+'' @ ds) \<and> length ds = 4)"
    by (auto simp: convert_e_acute cstring_def NUL_def)
  from display_form [where cchar = "''U+1F600''" and E = utf8_env and G = global_init] h2 v
  have 2: "case parse_character utf8_env ''U+1F600'' global_init of
        (r, G', out) \<Rightarrow> character G' = 0x1F600 \<and> cstring (hexchar G') = Some ''U+1F600''"
    by (simp split: prod.splits)
  from h1 h2 1 2 show ?thesis by blast
qed

text \<open>
  Claim C8, as amended. When the conversion of a literal character yields code point 0,
  \<^verbatim>\<open>convert_char\<close> prints \<^verbatim>\<open>Glyph result was 0.\<close> and returns 0, and
  \<^verbatim>\<open>parse_character\<close> treats that result as a failure: it prints
  \<^verbatim>\<open>Failed to convert character encoding.\<close> on standard error and returns -1. The
  globals then hold code point 0 and the display form \<^verbatim>\<open>U+0000\<close>.
\<close>

theorem zero_glyph_is_reported_as_failure:
  "\<not> is_hexstring cchar \<and> iconv_open_ok E
     \<and> read_uint32 (outbuf_after (snd (iconv_call E cchar))) = 0 \<Longrightarrow>
   parse_character E cchar G
     = (- 1,
        G\<lparr>hexchar := snprintf (hexchar G) 11 ''U+0000'', character := 0\<rparr>,
        [Stdout (''Glyph result was 0.'' @ newline),
         Stderr (''Failed to convert character encoding.'' @ newline)])"
  by (simp add: parse_character_def is_hexstring_def convert_char_def Let_def printf_0x_def
      hex_of_nat.simps [of 0] hexdigit_def replicate_num)

text \<open>Claim C8 as stated fails: iconv converts the empty token without error (it
  returns 0) to code point 0, and \<^verbatim>\<open>parse_character\<close> reports an error.\<close>

theorem zero_glyph_counterexample:
  "fst (iconv_call latin_env []) = 0
   \<and> fst (parse_character latin_env [] global_init) = - 1
   \<and> Stderr (''Failed to convert character encoding.'' @ newline)
        \<in> set (snd (snd (parse_character latin_env [] global_init)))"
  by (simp add: parse_character_def is_hexstring_def starts_with_def convert_char_def Let_def latin_env_def
      outbuf_after_def read_uint32_def global_init_def)

theorem zero_glyph_is_reported_as_failure_witness:
  "\<not> is_hexstring [CHR 0xFF] \<and> iconv_open_ok illegal_sequence_env
   \<and> read_uint32 (outbuf_after (snd (iconv_call illegal_sequence_env [CHR 0xFF]))) = 0
   \<and> parse_character illegal_sequence_env [CHR 0xFF] global_init
     = (- 1,
        global_init\<lparr>hexchar := ''U+0000'' @ replicate 5 NUL, character := 0\<rparr>,
        [Stdout (''Glyph result was 0.'' @ newline),
         Stderr (''Failed to convert character encoding.'' @ newline)])"
proof -
  have h: "\<not> is_hexstring [CHR 0xFF] \<and> iconv_open_ok illegal_sequence_env
     \<and> read_uint32 (outbuf_after (snd (iconv_call illegal_sequence_env [CHR 0xFF]))) = 0"
    by (simp add: is_hexstring_def starts_with_def illegal_sequence_env_def outbuf_after_def
        read_uint32_def)
  from zero_glyph_is_reported_as_failure [OF h, of global_init] h show ?thesis
    by (simp add: global_init_def snprintf_def replicate_num)
qed

text \<open>
  Claim C1 says that a failed conversion of a literal character is fatal and that no font
  is queried after it. The code does otherwise: \<^verbatim>\<open>main\<close> drops the value
  \<^verbatim>\<open>parse_character\<close> returns. With an input iconv rejects, the failure is reported and
  the fonts are queried all the same, for code point 0; when \<^verbatim>\<open>iconv_open\<close> fails,
  \<^verbatim>\<open>parse_character\<close> does not even report a failure (it tests the result of
  \<^verbatim>\<open>convert_char\<close> against 0, and the result is -1).
\<close>

theorem font_query_after_failed_conversion:
  "main illegal_sequence_env [''fc-char'', ''-N'', [CHR 0xFF]]
        [getopt CHR ''N'' 2, getopt_end 2] []
     = Returns (0, [Stdout (''Glyph result was 0.'' @ newline),
                    Stderr (''Failed to convert character encoding.'' @ newline),
                    FcFontList True 0])
   \<and> main no_iconv_env [''fc-char'', ''-N'', [CHR 0xFF]]
        [getopt CHR ''N'' 2, getopt_end 2] []
     = Returns (0, [Stderr (''Error initializing iconv: Invalid argument'' @ newline),
                    FcFontList True 0])
   \<and> fst (parse_character no_iconv_env [CHR 0xFF] global_init) = 0"
  by (simp add: main_def opt_def args_init_def illegal_sequence_env_def no_iconv_env_def
     parse_character_def is_hexstring_def starts_with_def convert_char_def outbuf_after_def read_uint32_def
     generate_fontset_def global_init_def report_def print_count_def show_name_def
     show_annot_def Let_def no_names_def getopt_def getopt_end_def)

text \<open>
  Claim C10. In \<^verbatim>\<open>convert_char\<close> the branch that reports a conversion error of iconv
  is dead: \<^verbatim>\<open>converted\<close> is an unsigned \<^verbatim>\<open>size_t\<close> and is never below 0. Once
  \<^verbatim>\<open>iconv_open\<close> has succeeded the function returns 0 or 1, never -1, it never prints
  the message of that branch, and its whole result does not depend on the value iconv
  returned: a run in which iconv returns another value and writes the same bytes ends the
  same, so an error that iconv signals through its result is neither detected nor reported.
\<close>

theorem convert_char_iconv_error_branch_dead:
  "iconv_open_ok E \<Longrightarrow>
     fst (convert_char E input buf outsize uchar) \<noteq> - 1
   \<and> Stderr (''Error converting glyph: '' @ strerror_text E @ newline)
         \<notin> set (snd (snd (snd (convert_char E input buf outsize uchar))))
   \<and> (\<forall>E'. iconv_open_ok E' \<and> snd (iconv_call E' input) = snd (iconv_call E input) \<longrightarrow>
            convert_char E' input buf outsize uchar
              = convert_char E input buf outsize uchar)"
  by (simp add: convert_char_def Let_def newline_def)

theorem convert_char_iconv_error_branch_dead_witness:
  "iconv_open_ok illegal_sequence_env
   \<and> fst (iconv_call illegal_sequence_env [CHR 0xFF]) = - 1
   \<and> fst (convert_char illegal_sequence_env [CHR 0xFF] (replicate 11 NUL) 11 0) = 0
   \<and> convert_char latin_env [CHR 0xFF] (replicate 11 NUL) 11 0
       = convert_char illegal_sequence_env [CHR 0xFF] (replicate 11 NUL) 11 0"
proof -
  have o: "iconv_open_ok illegal_sequence_env"
    by (simp add: illegal_sequence_env_def)
  have s: "iconv_open_ok latin_env \<and> snd (iconv_call latin_env [CHR 0xFF])
             = snd (iconv_call illegal_sequence_env [CHR 0xFF])"
    by (simp add: illegal_sequence_env_def latin_env_def)
  from convert_char_iconv_error_branch_dead [OF o, where input = "[CHR 0xFF]"
      and buf = "replicate 11 NUL" and outsize = 11 and uchar = 0] s
  have 1: "fst (convert_char illegal_sequence_env [CHR 0xFF] (replicate 11 NUL) 11 0) \<noteq> - 1"
    and 2: "convert_char latin_env [CHR 0xFF] (replicate 11 NUL) 11 0
            = convert_char illegal_sequence_env [CHR 0xFF] (replicate 11 NUL) 11 0"
    by blast+
  have "fst (convert_char illegal_sequence_env [CHR 0xFF] (replicate 11 NUL) 11 0) \<in> {- 1, 0, 1}"
    by (rule convert_char_ret_cases)
  moreover have "fst (convert_char illegal_sequence_env [CHR 0xFF] (replicate 11 NUL) 11 0) \<noteq> 1"
    by (simp add: convert_char_def illegal_sequence_env_def outbuf_after_def read_uint32_def)
  ultimately have 3: "fst (convert_char illegal_sequence_env [CHR 0xFF] (replicate 11 NUL) 11 0) = 0"
    using 1 by auto
  from o 2 3 show ?thesis by (simp add: illegal_sequence_env_def)
qed

subsection \<open>Rounding\<close>

text \<open>Rounding to a \<^verbatim>\<open>double\<close> is monotone, keeps the sign and leaves every number
  with a significand of at most 53 bits as it is.\<close>

lemma round_even_of_int [simp]: "round_even (of_int n) = n"
  by (simp add: round_even_def)

lemma round_even_floor: "\<lfloor>y\<rfloor> \<le> round_even y \<and> round_even y \<le> \<lfloor>y\<rfloor> + 1"
  by (simp add: round_even_def Let_def)

lemma round_even_mono: "a \<le> b \<Longrightarrow> round_even a \<le> round_even b"
proof -
  assume ab: "a \<le> b"
  then have f: "\<lfloor>a\<rfloor> \<le> \<lfloor>b\<rfloor>" by (rule floor_mono)
  show ?thesis
  proof (cases "\<lfloor>a\<rfloor> = \<lfloor>b\<rfloor>")
    case True
    with ab show ?thesis by (auto simp: round_even_def Let_def)
  next
    case False
    with f have "\<lfloor>a\<rfloor> + 1 \<le> \<lfloor>b\<rfloor>" by simp
    with round_even_floor [of a] round_even_floor [of b] show ?thesis by linarith
  qed
qed

lemma round_even_ge: "of_int n \<le> a \<Longrightarrow> n \<le> round_even a"
  using round_even_mono [of "of_int n" a] by simp

lemma round_even_le: "a \<le> of_int n \<Longrightarrow> round_even a \<le> n"
  using round_even_mono [of a "of_int n"] by simp

lemma p2_pos [simp]: "0 < (2::real) powi k"
  by (simp add: zero_less_power_int)

lemma p2_add: "(2::real) powi (j + k) = 2 powi j * 2 powi k"
  by (simp add: power_int_add)

lemma p2_split: "j + k = l \<Longrightarrow> (2::real) powi j * 2 powi k = 2 powi l"
  by (auto simp: power_int_add)

lemma p2_le_D: "(2::real) powi a \<le> 2 powi b \<Longrightarrow> a \<le> b"
proof (rule ccontr)
  assume l: "(2::real) powi a \<le> 2 powi b" and "\<not> a \<le> b"
  then have "b < a" by simp
  then have "(2::real) powi b < 2 powi a" by (intro power_int_strict_increasing) simp_all
  with l show False by simp
qed

lemma p2_powr: "(2::real) powr real_of_int k = 2 powi k"
  by (simp add: powr_real_of_int')

lemma p2_powr1: "(2::real) powr (real_of_int k + 1) = 2 powi (k + 1)"
  using p2_powr [of "k + 1"] by simp

lemma p2_cancel [simp]: "(2::real) powi (52 - e) * 2 powi (e - 52) = 1"
  using p2_add [of "52 - e" "e - 52"] by simp

lemma floor_log2:
  assumes "2 powi e \<le> x" and "x < 2 powi (e + 1)"
  shows "\<lfloor>log 2 x\<rfloor> = e"
proof -
  have "0 < x" using assms(1) p2_pos [of e] by linarith
  then show ?thesis
    using assms by (simp add: floor_log_eq_powr_iff p2_powr p2_powr1)
qed

lemma exponent_exists:
  assumes "0 < (x::real)"
  shows "\<exists>e. 2 powi e \<le> x \<and> x < 2 powi (e + 1)"
proof -
  have "\<lfloor>log 2 x\<rfloor> = \<lfloor>log 2 x\<rfloor>" ..
  with assms have "2 powr real_of_int \<lfloor>log 2 x\<rfloor> \<le> x \<and> x < 2 powr real_of_int (\<lfloor>log 2 x\<rfloor> + 1)"
    by (simp only: floor_log_eq_powr_iff [of x 2] flip: )
  then show ?thesis by (auto simp: p2_powr p2_powr1)
qed

lemma fl_eval:
  assumes "2 powi e \<le> \<bar>x\<bar>" and "\<bar>x\<bar> < 2 powi (e + 1)"
  shows "fl x = of_int (round_even (x * 2 powi (52 - e))) * 2 powi (e - 52)"
proof -
  have "x \<noteq> 0"
  proof
    assume "x = 0"
    with assms(1) have "(2::real) powi e \<le> 0" by simp
    with p2_pos [of e] show False by linarith
  qed
  moreover have "\<lfloor>log 2 \<bar>x\<bar>\<rfloor> = e" using assms by (rule floor_log2)
  ultimately show ?thesis by (simp add: fl_def)
qed

lemma fl_zero [simp]: "fl 0 = 0"
  by (simp add: fl_def)

lemma fl_bounds:
  assumes "2 powi e \<le> x" and "x < 2 powi (e + 1)"
  shows "2 powi e \<le> fl x \<and> fl x \<le> 2 powi (e + 1)"
proof -
  have x: "0 < x" using assms(1) p2_pos [of e] by linarith
  let ?s = "(2::real) powi (52 - e)"
  have s: "0 < ?s" by simp
  have e: "fl x = of_int (round_even (x * ?s)) * 2 powi (e - 52)"
    using assms x by (intro fl_eval) simp_all
  have a: "2 powi e * ?s = of_int (2 ^ 52)"
    using p2_split [of e "52 - e" 52] by simp
  have b: "2 powi (e + 1) * ?s = of_int (2 ^ 53)"
    using p2_split [of "e + 1" "52 - e" 53] by simp
  have "of_int (2 ^ 52) \<le> x * ?s" using assms(1) s a by (metis mult_le_cancel_right_pos)
  then have lo: "2 ^ 52 \<le> round_even (x * ?s)" by (rule round_even_ge)
  have "x * ?s \<le> of_int (2 ^ 53)" using assms(2) s b by (metis less_imp_le mult_le_cancel_right_pos)
  then have hi: "round_even (x * ?s) \<le> 2 ^ 53" by (rule round_even_le)
  have c: "of_int (2 ^ 52) * 2 powi (e - 52) = (2::real) powi e"
    using p2_split [of 52 "e - 52" e] by simp
  have d: "of_int (2 ^ 53) * 2 powi (e - 52) = (2::real) powi (e + 1)"
    using p2_split [of 53 "e - 52" "e + 1"] by simp
  have "(of_int (2 ^ 52) :: real) \<le> of_int (round_even (x * ?s))"
    using lo by (simp only: of_int_le_iff)
  then have "of_int (2 ^ 52) * 2 powi (e - 52) \<le> of_int (round_even (x * ?s)) * (2::real) powi (e - 52)"
    by (intro mult_right_mono) simp_all
  moreover have "(of_int (round_even (x * ?s)) :: real) \<le> of_int (2 ^ 53)"
    using hi by (simp only: of_int_le_iff)
  then have "of_int (round_even (x * ?s)) * (2::real) powi (e - 52) \<le> of_int (2 ^ 53) * 2 powi (e - 52)"
    by (intro mult_right_mono) simp_all
  ultimately show ?thesis unfolding e c d by simp
qed

lemma fl_nonneg: "0 \<le> x \<Longrightarrow> 0 \<le> fl x"
proof (cases "x = 0")
  case True
  then show ?thesis by simp
next
  case False
  assume "0 \<le> x"
  with False have "0 < x" by simp
  then obtain e where "2 powi e \<le> x \<and> x < 2 powi (e + 1)" using exponent_exists by blast
  then have "2 powi e \<le> fl x" using fl_bounds by blast
  with p2_pos [of e] show ?thesis by linarith
qed

lemma fl_mono_nonneg:
  assumes "0 \<le> x" and "x \<le> y"
  shows "fl x \<le> fl y"
proof (cases "x = 0")
  case True
  with assms fl_nonneg [of y] show ?thesis by simp
next
  case False
  with assms have x: "0 < x" and y: "0 < y" by simp_all
  obtain e where e: "2 powi e \<le> x" "x < 2 powi (e + 1)" using exponent_exists [OF x] by blast
  obtain f where f: "2 powi f \<le> y" "y < 2 powi (f + 1)" using exponent_exists [OF y] by blast
  have ef: "e \<le> f"
  proof (rule ccontr)
    assume "\<not> e \<le> f"
    then have "f + 1 \<le> e" by simp
    then have "(2::real) powi (f + 1) \<le> 2 powi e" by (intro power_int_increasing) simp_all
    with e(1) f(2) assms(2) show False by linarith
  qed
  show ?thesis
  proof (cases "e = f")
    case True
    have "x * 2 powi (52 - e) \<le> y * 2 powi (52 - e)"
      using assms(2) by (intro mult_right_mono) simp_all
    then have "round_even (x * 2 powi (52 - e)) \<le> round_even (y * 2 powi (52 - e))"
      by (rule round_even_mono)
    then have "of_int (round_even (x * 2 powi (52 - e))) * (2::real) powi (e - 52)
               \<le> of_int (round_even (y * 2 powi (52 - e))) * 2 powi (e - 52)"
      by (intro mult_right_mono) simp_all
    moreover have "fl x = of_int (round_even (x * 2 powi (52 - e))) * 2 powi (e - 52)"
      using e x by (intro fl_eval) simp_all
    moreover have "fl y = of_int (round_even (y * 2 powi (52 - e))) * 2 powi (e - 52)"
      using f y True by (intro fl_eval) simp_all
    ultimately show ?thesis by simp
  next
    case False
    with ef have "e + 1 \<le> f" by simp
    then have "(2::real) powi (e + 1) \<le> 2 powi f" by (intro power_int_increasing) simp_all
    moreover have "fl x \<le> 2 powi (e + 1)" using fl_bounds [OF e] by simp
    moreover have "2 powi f \<le> fl y" using fl_bounds [OF f] by simp
    ultimately show ?thesis by linarith
  qed
qed

text \<open>Numbers with a significand of at most 53 bits are not changed.\<close>

lemma p2_less_D: "(2::real) powi a < 2 powi b \<Longrightarrow> a < b"
proof (rule ccontr)
  assume l: "(2::real) powi a < 2 powi b" and "\<not> a < b"
  then have "b \<le> a" by simp
  then have "(2::real) powi b \<le> 2 powi a" by (intro power_int_increasing) simp_all
  with l show False by simp
qed

lemma fl_representable:
  assumes "\<bar>m\<bar> < 2 ^ 53"
  shows "fl (of_int m * 2 powi k) = of_int m * 2 powi k"
proof (cases "m = 0")
  case True
  then show ?thesis by simp
next
  case False
  let ?x = "of_int m * (2::real) powi k"
  have ax: "\<bar>?x\<bar> = of_int \<bar>m\<bar> * 2 powi k" by (simp add: abs_mult)
  have x: "0 < \<bar>?x\<bar>" using False by simp
  obtain e where e: "2 powi e \<le> \<bar>?x\<bar>" "\<bar>?x\<bar> < 2 powi (e + 1)"
    using exponent_exists [OF x] by blast
  have "(of_int \<bar>m\<bar> :: real) < of_int (2 ^ 53)"
    using assms by (simp only: of_int_less_iff)
  then have "of_int \<bar>m\<bar> * 2 powi k < (2::real) ^ 53 * 2 powi k"
    by (intro mult_strict_right_mono) simp_all
  also have "\<dots> = 2 powi (53 + k)" using p2_split [of 53 k "53 + k"] by simp
  finally have "(2::real) powi e < 2 powi (53 + k)" using e(1) ax by linarith
  then have "e < 53 + k" by (rule p2_less_D)
  then have n: "0 \<le> k + 52 - e" by simp
  have "?x * 2 powi (52 - e) = of_int m * (2 powi k * 2 powi (52 - e))" by simp
  also have "2 powi k * (2::real) powi (52 - e) = 2 powi (k + 52 - e)"
    by (rule p2_split) simp
  also have "\<dots> = of_int (2 ^ nat (k + 52 - e))"
    using n by (simp add: power_int_def)
  finally have "?x * 2 powi (52 - e) = of_int (m * 2 ^ nat (k + 52 - e))" by simp
  then have "round_even (?x * 2 powi (52 - e)) = m * 2 ^ nat (k + 52 - e)"
    by (simp only: round_even_of_int)
  then have "fl ?x = of_int (m * 2 ^ nat (k + 52 - e)) * 2 powi (e - 52)"
    using fl_eval [OF e] by simp
  also have "\<dots> = of_int m * (2 powi (k + 52 - e) * 2 powi (e - 52))"
    using n by (simp add: power_int_def)
  also have "2 powi (k + 52 - e) * (2::real) powi (e - 52) = 2 powi k"
    by (rule p2_split) simp
  finally show ?thesis .
qed

lemma fl_of_int: "\<bar>m\<bar> < 2 ^ 53 \<Longrightarrow> fl (of_int m) = of_int m"
  using fl_representable [of m 0] by simp

lemma fl_le: "0 \<le> x \<Longrightarrow> x \<le> of_int m * 2 powi k \<Longrightarrow> \<bar>m\<bar> < 2 ^ 53 \<Longrightarrow> fl x \<le> of_int m * 2 powi k"
  using fl_mono_nonneg [of x "of_int m * 2 powi k"] fl_representable [of m k] by simp

lemma fl_ge: "0 \<le> of_int m * (2::real) powi k \<Longrightarrow> of_int m * 2 powi k \<le> x \<Longrightarrow> \<bar>m\<bar> < 2 ^ 53 \<Longrightarrow> of_int m * 2 powi k \<le> fl x"
  using fl_mono_nonneg [of "of_int m * 2 powi k" x] fl_representable [of m k] by simp


lemma fl_quarter: "fl (1 / 4) = 1 / 4"
  using fl_representable [of 1 "- 2"] by simp

lemma fl_sixteenth: "fl (1 / 16) = 1 / 16"
  using fl_representable [of 1 "- 4"] by simp

lemma fl_numeral [simp]: "\<bar>numeral n :: int\<bar> < 2 ^ 53 \<Longrightarrow> fl (numeral n) = numeral n"
  using fl_of_int [of "numeral n"] by simp

lemma fl_one [simp]: "fl 1 = 1"
  using fl_of_int [of 1] by simp


subsection \<open>The grid\<close>

lemma FTSPACE_value: "FTSPACE = 18014398509481985 / (5 * 18014398509481984)"
proof -
  have "fl (2 / 10) = of_int (round_even ((2 / 10) * 2 powi (52 - (- 3)))) * 2 powi (- 3 - 52)"
    by (rule fl_eval) simp_all
  also have "round_even ((2 / 10) * 2 powi (52 - (- 3))) = 7205759403792794"
    by (simp add: round_even_def)
  finally show ?thesis by (simp add: FTSPACE_def)
qed

lemma c_trunc_nonneg: "0 \<le> x \<Longrightarrow> c_trunc x = \<lfloor>x\<rfloor>"
  by (simp add: c_trunc_def)

lemma name_height_eq:
  assumes "0 \<le> b" and "b < 2 ^ 31"
  shows "name_height b = Some (b div 5)"
proof -
  let ?x = "of_int b * FTSPACE"
  let ?q = "b div 5"
  have q0: "0 \<le> ?q" using assms(1) by simp
  have qb: "?q < 2 ^ 31" using assms by simp
  have b5: "b = 5 * ?q + b mod 5" by simp
  have r: "0 \<le> b mod 5 \<and> b mod 5 \<le> 4" by simp
  define B :: real where "B = of_int b"
  define Q :: real where "Q = of_int ?q"
  define R :: real where "R = of_int (b mod 5)"
  have x: "?x = (18014398509481985 / 90071992547409920) * B"
    by (simp add: FTSPACE_value B_def)
  have "of_int b = (of_int (5 * ?q + b mod 5) :: real)" by simp
  then have b5r: "B = 5 * Q + R" unfolding B_def Q_def R_def by (simp only: of_int_add of_int_mult of_int_numeral)
  have rr: "0 \<le> R \<and> R \<le> 4"
    using r unfolding R_def by (metis of_int_0_le_iff of_int_le_iff of_int_numeral)
  have "(of_int b :: real) < of_int (2 ^ 31)"
    using assms(2) by (simp only: of_int_less_iff)
  then have br: "0 \<le> B \<and> B < 2147483648"
    using assms(1) by (simp add: B_def)
  have lo: "of_int ?q \<le> ?x" unfolding x using b5r rr br by (simp add: Q_def [symmetric])
  have hi: "?x \<le> of_int ?q + 7 / 8" unfolding x using b5r rr br by (simp add: Q_def [symmetric])
  have x0: "0 \<le> ?x" using lo q0 by (metis of_int_0_le_iff order_trans)
  have "of_int ?q * 2 powi 0 \<le> fl ?x"
    using q0 qb lo by (intro fl_ge) auto
  then have lo': "of_int ?q \<le> fl ?x" by simp
  have "fl ?x \<le> of_int (8 * ?q + 7) * 2 powi (- 3)"
    using q0 qb hi x0 by (intro fl_le) (auto simp: field_simps)
  then have hi': "fl ?x < of_int ?q + 1" by (simp add: field_simps)
  have "\<lfloor>fl ?x\<rfloor> = ?q" using lo' hi' by (simp add: floor_unique)
  moreover have "0 \<le> fl ?x" using lo' q0 by (metis of_int_0_le_iff order_trans)
  ultimately have "c_trunc (fl ?x) = ?q" by (simp add: c_trunc_nonneg)
  then show ?thesis using q0 qb by (simp add: name_height_def)
qed

lemma fl_neg_numeral [simp]: "\<bar>numeral n :: int\<bar> < 2 ^ 53 \<Longrightarrow> fl (- numeral n) = - numeral n"
  using fl_of_int [of "- numeral n"] by simp

lemma now_ms_window [simp]: "now_ms (window w h) = 1000000"
  by (simp add: now_ms_def window_def)

lemma grid_count_nonneg: "0 \<le> maxf \<Longrightarrow> grid_count maxf n = print_count maxf n"
  by (auto simp: grid_count_def print_count_def)

lemma print_count_min: "print_count maxf n = (if 0 < maxf then min maxf n else n)"
  by (auto simp: print_count_def)

lemma atoi_minus_3: "atoi ''-3'' = - 3"
  by (simp add: atoi_def strtol_def isspace_c_def digit_value_def)

lemma atoi_2: "atoi ''2'' = 2"
  by (simp add: atoi_def strtol_def isspace_c_def digit_value_def)


text \<open>
  Claim C6 says that for every font count of at least 1 and every positive width and
  height both the column count and the row count are at least 1. The code does otherwise.
  One font in an area of 1600 by 100 pixels gives 4 columns and 0 rows, and the height of a
  box is then the conversion of an infinity to \<^verbatim>\<open>int\<close>; one font in an area of 100 by
  1600 pixels gives 0 columns, and the row count is the conversion of an infinity.
\<close>

theorem grid_counts_can_be_zero:
  "grid_columns 1 1600 100 = Some 4 \<and> grid_rows 1 4 = Some 0 \<and> box_extent 100 0 = None
   \<and> grid_layout 1 1600 100 = None
   \<and> grid_columns 1 100 1600 = Some 0 \<and> grid_rows 1 0 = None
   \<and> grid_layout 1 100 1600 = None
   \<and> paint_window (window 1600 140) args_init one_font = None"
proof -
  have 1: "grid_columns 1 1600 100 = Some 4"
    by (simp add: grid_columns_def d_div_def c_round_def c_trunc_def)
  have 2: "grid_rows 1 4 = Some 0"
    by (simp add: grid_rows_def d_div_def c_round_def c_trunc_def fl_quarter)
  have 3: "box_extent 100 0 = None"
    by (simp add: box_extent_def d_div_def)
  have 4: "box_extent 1600 4 = Some 400"
    by (simp add: box_extent_def d_div_def c_trunc_def)
  have 5: "grid_columns 1 100 1600 = Some 0"
    by (simp add: grid_columns_def d_div_def c_round_def c_trunc_def fl_sixteenth real_sqrt_divide fl_quarter)
  have 6: "grid_rows 1 0 = None"
    by (simp add: grid_rows_def d_div_def)
  have l: "grid_layout 1 1600 100 = None"
    using 1 2 3 4 by (simp add: grid_layout_def)
  have w: "(140 :: 32 word) - word_of_int 40 = 100" by simp
  have 7: "paint_window (window 1600 140) args_init one_font = None"
    by (simp add: paint_window_def generate_grid_def grid_count_def args_init_def one_font_def
        global_init_def VPADDING_def HPADDING_def window_def l w)
  from 1 2 3 4 5 6 7 show ?thesis by (simp add: grid_layout_def)
qed

text \<open>
  Claim C7 says that the number of fonts shown in the grid and printed in the list is the
  smaller of \<^verbatim>\<open>--maxfonts\<close> and the number of matched fonts when \<^verbatim>\<open>--maxfonts\<close> is set and
  positive, and the number of matched fonts otherwise. The list does that. The grid does
  otherwise for a negative value: with \<^verbatim>\<open>-m -3\<close> and five fonts its count is -3, and the
  first repaint takes the square root of a negative number and converts NaN to \<^verbatim>\<open>int\<close>.
  The example of the claim holds: \<^verbatim>\<open>--nodisplay --print -m2\<close> prints the first two of
  five families.
\<close>

theorem negative_maxfonts_grid_count:
  "grid_count (- 3) 5 = - 3 \<and> print_count (- 3) 5 = 5
   \<and> main five_fonts_env [''fc-char'', ''-m'', ''-3'', ''0x41'']
        [getopt_arg CHR ''m'' ''-3'' 3, getopt_end 3] [(window 800 640, None)] = Undefined
   \<and> main five_fonts_env [''fc-char'', ''-N'', ''-p'', ''-m'', ''-3'', ''0x41'']
        [getopt CHR ''N'' 2, getopt CHR ''p'' 3, getopt_arg CHR ''m'' ''-3'' 5, getopt_end 5] []
      = Returns (0, [FcFontList False 0x41, Stdout (''DejaVu Sans'' @ newline),
                     Stdout (''DejaVu Serif'' @ newline), Stdout (''FreeMono'' @ newline),
                     Stdout (''FreeSans'' @ newline), Stdout (''FreeSerif'' @ newline)])
   \<and> main five_fonts_env [''fc-char'', ''--nodisplay'', ''--print'', ''-m2'', ''0x41'']
        [getopt CHR ''N'' 2, getopt CHR ''p'' 3, getopt_arg CHR ''m'' ''2'' 4, getopt_end 4] []
      = Returns (0, [FcFontList False 0x41, Stdout (''DejaVu Sans'' @ newline),
                     Stdout (''DejaVu Serif'' @ newline)])"
proof -
  have c: "grid_columns (- 3) 800 600 = None"
    by (simp add: grid_columns_def d_div_def)
  have w: "(640 :: 32 word) - word_of_int 40 = 600" by simp
  have p: "\<And>E. parse_character E ''0x41'' global_init
           = (0, global_init\<lparr>hexchar := ''U+41'' @ replicate 7 NUL, character := 0x41\<rparr>, [])"
    by (simp add: parse_character_def is_hexstring_def starts_with_def strncpy_def strtol_def
        isspace_c_def has_hex_prefix_def digit_value_def global_init_def replicate_num)
  have 1: "main five_fonts_env [''fc-char'', ''-m'', ''-3'', ''0x41'']
        [getopt_arg CHR ''m'' ''-3'' 3, getopt_end 3] [(window 800 640, None)] = Undefined"
    by (simp add: main_def getopt_arg_def getopt_end_def opt_def args_init_def atoi_minus_3 p
        generate_fontset_def five_fonts_env_def maybe_paint_window_def TIMEOUT_def
        paint_window_def generate_grid_def grid_count_def grid_layout_def c w
        window_def [where w = 800 and h = 640, THEN arg_cong [where f = geometry_width]]
        window_def [where w = 800 and h = 640, THEN arg_cong [where f = geometry_height]]
        window_def [where w = 800 and h = 640, THEN arg_cong [where f = xft_font_open_ok]]
        window_def [where w = 800 and h = 640, THEN arg_cong [where f = quit_extents_width]]
        window_def [where w = 800 and h = 640, THEN arg_cong [where f = title_font_height]]
        VPADDING_def HPADDING_def Let_def)
  have 2: "main five_fonts_env [''fc-char'', ''-N'', ''-p'', ''-m'', ''-3'', ''0x41'']
        [getopt CHR ''N'' 2, getopt CHR ''p'' 3, getopt_arg CHR ''m'' ''-3'' 5, getopt_end 5] []
      = Returns (0, [FcFontList False 0x41, Stdout (''DejaVu Sans'' @ newline),
                     Stdout (''DejaVu Serif'' @ newline), Stdout (''FreeMono'' @ newline),
                     Stdout (''FreeSans'' @ newline), Stdout (''FreeSerif'' @ newline)])"
    by (simp add: main_def getopt_def getopt_arg_def getopt_end_def opt_def args_init_def
        atoi_minus_3 p generate_fontset_def five_fonts_env_def report_def print_count_def
        show_name_def show_annot_def Let_def)
  have 3: "main five_fonts_env [''fc-char'', ''--nodisplay'', ''--print'', ''-m2'', ''0x41'']
        [getopt CHR ''N'' 2, getopt CHR ''p'' 3, getopt_arg CHR ''m'' ''2'' 4, getopt_end 4] []
      = Returns (0, [FcFontList False 0x41, Stdout (''DejaVu Sans'' @ newline),
                     Stdout (''DejaVu Serif'' @ newline)])"
    by (simp add: main_def getopt_def getopt_arg_def getopt_end_def opt_def args_init_def
        atoi_2 p generate_fontset_def five_fonts_env_def report_def print_count_def
        show_name_def show_annot_def Let_def)
  from 1 2 3 show ?thesis by (simp add: grid_count_def print_count_def)
qed

subsection \<open>The window\<close>

lemma window_simps [simp]:
  "tv_sec (window w h) = 1000" "tv_usec (window w h) = 0"
  "geometry_width (window w h) = w" "geometry_height (window w h) = h"
  "xft_font_open_ok (window w h) fam" "quit_extents_width (window w h) = 30"
  "title_font_height (window w h) = 20"
  by (simp_all add: window_def)

lemma fl_nonpos: "x \<le> 0 \<Longrightarrow> fl x \<le> 0"
proof (cases "x = 0")
  case True
  then show ?thesis by simp
next
  case False
  assume "x \<le> 0"
  with False have x: "0 < \<bar>x\<bar>" by simp
  obtain e where e: "2 powi e \<le> \<bar>x\<bar>" "\<bar>x\<bar> < 2 powi (e + 1)"
    using exponent_exists [OF x] by blast
  have "x * 2 powi (52 - e) \<le> of_int 0"
    using \<open>x \<le> 0\<close> by (simp add: mult_nonpos_nonneg)
  then have "round_even (x * 2 powi (52 - e)) \<le> 0" by (rule round_even_le)
  then have "(of_int (round_even (x * 2 powi (52 - e))) :: real) \<le> 0" by simp
  then have "of_int (round_even (x * 2 powi (52 - e))) * (2::real) powi (e - 52) \<le> 0"
    by (simp add: mult_nonpos_nonneg)
  then show ?thesis using fl_eval [OF e] by simp
qed

lemma fl_greater_100: "TIMEOUT < fl d \<Longrightarrow> 100 < d"
proof (rule ccontr)
  assume t: "TIMEOUT < fl d" and "\<not> 100 < d"
  then have d: "d \<le> 100" by simp
  show False
  proof (cases "0 \<le> d")
    case True
    then have "fl d \<le> of_int 100 * 2 powi 0" using d by (intro fl_le) simp_all
    with t show False by (simp add: TIMEOUT_def)
  next
    case False
    then have "fl d \<le> 0" by (intro fl_nonpos) simp
    with t show False by (simp add: TIMEOUT_def)
  qed
qed

text \<open>
  Claim C9, as amended. \<^verbatim>\<open>maybe_paint_window\<close> paints only when the dirty flag is set
  and the time since the last paint, as computed, is more than 100 ms; otherwise it changes
  nothing. When it paints, it clears the dirty flag and records the time whatever value
  \<^verbatim>\<open>generate_grid\<close> returned: \<^verbatim>\<open>paint_window\<close> returns nothing, so a repaint that failed
  clears the flag as one that succeeded does.
\<close>

theorem maybe_paint_window_clears_dirty:
  "(maybe_paint_window X A G = Some (G', evs)
      \<and> \<not> (dirty G \<noteq> 0 \<and> TIMEOUT < fl (now_ms X - lastpaint G)) \<longrightarrow> G' = G \<and> evs = [])
   \<and> (TIMEOUT < fl (now_ms X - lastpaint G) \<longrightarrow> 100 < now_ms X - lastpaint G)
   \<and> (let w = 2 * HPADDING + quit_extents_width X;
          h = 2 * VPADDING + title_font_height X;
          offset = h + 2 * VPADDING;
          G1 = G\<lparr>quitdims := [HPADDING, VPADDING, w, h]\<rparr>
      in dirty G \<noteq> 0 \<and> TIMEOUT < fl (now_ms X - lastpaint G) \<and> xft_font_open_ok X TITLEFONT
         \<and> generate_grid X A G1 (geometry_width X) (geometry_height X - word_of_int offset) offset
             = Some (r, cells)
         \<longrightarrow> maybe_paint_window X A G
               = Some (G1\<lparr>dirty := 0, lastpaint := now_ms X\<rparr>,
                       XDrawRectangle HPADDING VPADDING w h # cells))"
  by (auto simp: maybe_paint_window_def paint_window_def Let_def fl_greater_100 split: option.splits)

lemma grid_small:
  "generate_grid (window 80 60) args_init (one_font\<lparr>quitdims := q\<rparr>) 80 20 40 = Some (- 1, [])"
proof -
  have 1: "grid_columns 1 80 20 = Some 2"
    by (simp add: grid_columns_def d_div_def c_round_def c_trunc_def)
  have h: "fl (1 / 2) = 1 / 2" using fl_representable [of 1 "- 1"] by simp
  have 2: "grid_rows 1 2 = Some 1"
    by (simp add: grid_rows_def d_div_def c_round_def c_trunc_def h)
  have 3: "box_extent 80 2 = Some 40"
    by (simp add: box_extent_def d_div_def c_trunc_def)
  have 4: "box_extent 20 1 = Some 20"
    by (simp add: box_extent_def d_div_def c_trunc_def)
  have 5: "name_height 20 = Some 4"
    using name_height_eq [of 20] by simp
  show ?thesis
    by (simp add: generate_grid_def grid_count_def args_init_def one_font_def global_init_def
        grid_layout_def 1 2 3 4 5 VPADDING_def HPADDING_def)
qed

text \<open>Claim C9 as stated fails: in a window of 80 by 60 pixels the grid does not fit,
  \<^verbatim>\<open>generate_grid\<close> returns -1, and the dirty flag is cleared.\<close>

theorem failed_repaint_clears_dirty:
  "generate_grid (window 80 60) args_init (one_font\<lparr>quitdims := [5, 5, 40, 30]\<rparr>) 80 20 40
     = Some (- 1, [])
   \<and> dirty one_font = 1
   \<and> maybe_paint_window (window 80 60) args_init one_font
     = Some (one_font\<lparr>quitdims := [5, 5, 40, 30], dirty := 0, lastpaint := 1000000\<rparr>,
             [XDrawRectangle 5 5 40 30])"
proof -
  have w: "(60 :: 32 word) - word_of_int 40 = 20" by simp
  have d: "fl (1000000 - lastpaint one_font) = 1000001"
    by (simp add: one_font_def)
  show ?thesis
    by (simp add: grid_small maybe_paint_window_def paint_window_def VPADDING_def HPADDING_def
        TIMEOUT_def d w Let_def) (simp add: one_font_def)
qed

lemma grid_100:
  "generate_grid (window 100 140) args_init (one_font\<lparr>quitdims := q\<rparr>) 100 100 40
     = Some (0, [XDrawRectangle 0 40 100 100])"
proof -
  have 1: "grid_columns 1 100 100 = Some 1"
    by (simp add: grid_columns_def d_div_def c_round_def c_trunc_def)
  have 2: "grid_rows 1 1 = Some 1"
    by (simp add: grid_rows_def d_div_def c_round_def c_trunc_def)
  have 3: "box_extent 100 1 = Some 100"
    by (simp add: box_extent_def d_div_def c_trunc_def)
  have 5: "name_height 100 = Some 20"
    using name_height_eq [of 100] by simp
  show ?thesis
    by (simp add: generate_grid_def grid_count_def args_init_def one_font_def global_init_def
        grid_layout_def 1 2 3 5 VPADDING_def HPADDING_def gen_scale_title_font_def sans_def)
qed

theorem maybe_paint_window_clears_dirty_witness:
  "maybe_paint_window (window 100 140) args_init (one_font\<lparr>dirty := 0\<rparr>)
     = Some (one_font\<lparr>dirty := 0\<rparr>, [])
   \<and> TIMEOUT < fl (now_ms (window 100 140) - lastpaint one_font)
   \<and> 100 < now_ms (window 100 140) - lastpaint one_font
   \<and> dirty one_font \<noteq> 0 \<and> xft_font_open_ok (window 100 140) TITLEFONT
   \<and> generate_grid (window 100 140) args_init (one_font\<lparr>quitdims := [5, 5, 40, 30]\<rparr>) 100 100 40
       = Some (0, [XDrawRectangle 0 40 100 100])
   \<and> maybe_paint_window (window 100 140) args_init one_font
       = Some (one_font\<lparr>quitdims := [5, 5, 40, 30], dirty := 0, lastpaint := 1000000\<rparr>,
               [XDrawRectangle 5 5 40 30, XDrawRectangle 0 40 100 100])"
proof -
  let ?X = "window 100 140"
  have t: "TIMEOUT < fl (now_ms ?X - lastpaint one_font)"
    by (simp add: one_font_def TIMEOUT_def)
  have t0: "TIMEOUT < fl (now_ms ?X - lastpaint (one_font\<lparr>dirty := 0\<rparr>))"
    by (simp add: one_font_def TIMEOUT_def)
  have d: "dirty one_font \<noteq> 0" by (simp add: one_font_def)
  have w: "(140 :: 32 word) - word_of_int 40 = 100" by simp
  have "maybe_paint_window ?X args_init (one_font\<lparr>dirty := 0\<rparr>) \<noteq> None"
    by (simp add: maybe_paint_window_def)
  then obtain G' evs where m: "maybe_paint_window ?X args_init (one_font\<lparr>dirty := 0\<rparr>) = Some (G', evs)"
    by auto
  from maybe_paint_window_clears_dirty [where X = ?X and A = args_init and G = "one_font\<lparr>dirty := 0\<rparr>"
      and G' = G' and evs = evs] m
  have 1: "maybe_paint_window ?X args_init (one_font\<lparr>dirty := 0\<rparr>) = Some (one_font\<lparr>dirty := 0\<rparr>, [])"
    by simp
  from maybe_paint_window_clears_dirty [where X = ?X and A = args_init and G = one_font
      and r = 0 and cells = "[XDrawRectangle 0 40 100 100]"] t d
  have 2: "100 < now_ms ?X - lastpaint one_font"
    and 3: "maybe_paint_window ?X args_init one_font
       = Some (one_font\<lparr>quitdims := [5, 5, 40, 30], dirty := 0, lastpaint := 1000000\<rparr>,
               [XDrawRectangle 5 5 40 30, XDrawRectangle 0 40 100 100])"
    by (simp_all add: Let_def VPADDING_def HPADDING_def w grid_100)
  from 1 2 3 t d show ?thesis by (simp add: grid_100)
qed

subsection \<open>The layout in exact arithmetic\<close>












lemma c_trunc_of_int [simp]: "c_trunc (of_int k) = k"
  by (simp add: c_trunc_def)









end
